theory Spec2Isabelle
  imports Complex_Main
begin

section \<open>JavaScript values\<close>

text \<open>
  The validators and the settings store inspect values at run time (\<open>typeof\<close>,
  \<open>Array.isArray\<close>, \<open>=== null\<close>), so values are modelled as a datatype with one
  constructor per run-time kind. A number is a finite value, \<open>NaN\<close> or an infinity;
  every relational comparison with \<open>NaN\<close> is false. An object literal is an association
  list from property names to values, in insertion order; a read finds the first entry
  of a name, and no result below needs the names to be distinct. A string is a list of
  characters, one per code unit.
\<close>

datatype jsnum = Fin rat | NaN | PosInf | NegInf

datatype jsval =
    Undefined
  | Null
  | Bool bool
  | Num jsnum
  | Str string
  | Arr "jsval list"
  | Obj "(string \<times> jsval) list"

type_synonym jsobj = "(string \<times> jsval) list"

datatype jstype = TUndefined | TObject | TBoolean | TNumber | TString

fun typeof :: "jsval \<Rightarrow> jstype" where
  "typeof Undefined = TUndefined"
| "typeof Null = TObject"
| "typeof (Bool b) = TBoolean"
| "typeof (Num n) = TNumber"
| "typeof (Str s) = TString"
| "typeof (Arr xs) = TObject"
| "typeof (Obj kvs) = TObject"

fun isArray :: "jsval \<Rightarrow> bool" where
  "isArray (Arr xs) = True"
| "isArray v = False"

text \<open>The relational operators \<open><\<close> and \<open>>\<close> on numbers.\<close>

fun num_lt :: "jsnum \<Rightarrow> jsnum \<Rightarrow> bool" where
  "num_lt NaN y = False"
| "num_lt x NaN = False"
| "num_lt (Fin a) (Fin b) = (a < b)"
| "num_lt (Fin a) PosInf = True"
| "num_lt (Fin a) NegInf = False"
| "num_lt PosInf y = False"
| "num_lt NegInf NegInf = False"
| "num_lt NegInf y = True"

definition num_gt :: "jsnum \<Rightarrow> jsnum \<Rightarrow> bool" where
  "num_gt x y = num_lt y x"

text \<open>Truthiness, as \<open>if (v)\<close>, \<open>!v\<close> and \<open>a || b\<close> read it.\<close>

fun truthy :: "jsval \<Rightarrow> bool" where
  "truthy Undefined = False"
| "truthy Null = False"
| "truthy (Bool b) = b"
| "truthy (Num (Fin r)) = (r \<noteq> 0)"
| "truthy (Num NaN) = False"
| "truthy (Num x) = True"
| "truthy (Str s) = (s \<noteq> [])"
| "truthy (Arr xs) = True"
| "truthy (Obj kvs) = True"

text \<open>Thrown errors: \<open>Error(message)\<close>, the built-in \<open>TypeError\<close> and \<open>SyntaxError\<close>,
  a failed file-system call, and the client's \<open>HTTP <status>: <body>\<close>.\<close>

datatype js_error =
    Error string
  | TypeError string
  | SyntaxError string
  | IOError string
  | HttpError nat string

text \<open>\<open>String.prototype.startsWith\<close>\<close>

definition startsWith :: "string \<Rightarrow> string \<Rightarrow> bool" where
  "startsWith s p = (take (length p) s = p)"

section \<open>Spawn-argument validators (utils/validators.ts)\<close>

text \<open>
  \<open>validatePort(port, defaultPort = 8080)\<close>: the three tests of the \<open>||\<close> chain in the
  source's order; the comparisons are reached for numbers only.
\<close>

definition validatePort :: "jsval \<Rightarrow> jsnum \<Rightarrow> jsval" where
  "validatePort port defaultPort =
     (case port of
        Num p \<Rightarrow>
          if num_lt p (Fin 1024) \<or> num_gt p (Fin 65535) then Num defaultPort else port
      | _ \<Rightarrow> Num defaultPort)"

definition validateVerbosity :: "jsval \<Rightarrow> jsnum \<Rightarrow> jsval" where
  "validateVerbosity verbosity defaultVerbosity =
     (case verbosity of
        Num v \<Rightarrow>
          if num_lt v (Fin 0) \<or> num_gt v (Fin 5) then Num defaultVerbosity else verbosity
      | _ \<Rightarrow> Num defaultVerbosity)"

text \<open>The two call sites: the proxy manager relies on the default parameter, the
  storage manager passes 5555.\<close>

definition proxy_safePort :: "jsval \<Rightarrow> jsval" where
  "proxy_safePort port = validatePort port (Fin 8080)"

definition storage_safePort :: "jsval \<Rightarrow> jsval" where
  "storage_safePort port = validatePort port (Fin 5555)"

text \<open>The range the documentation names: a number between 1024 and 65535.\<close>

definition port_in_range :: "jsval \<Rightarrow> bool" where
  "port_in_range p = (case p of Num (Fin r) \<Rightarrow> 1024 \<le> r \<and> r \<le> 65535 | _ \<Rightarrow> False)"


section \<open>Request validation (ipc/validation.ts)\<close>

subsection \<open>Bag identifiers\<close>

text \<open>
  \<open>isValidBagId(bagId)\<close> is \<open>typeof bagId === 'string' && /^[a-fA-F0-9]{64}$/.test(bagId)\<close>.
  The regular expression has no flags: \<open>^\<close> matches at the start of the input only and
  \<open>$\<close> at its end only. A character class is a list of inclusive ranges; the counted
  repetition consumes characters of the class from the front of the input.
\<close>

type_synonym char_class = "(char \<times> char) list"

definition in_class :: "char_class \<Rightarrow> char \<Rightarrow> bool" where
  "in_class cls c = list_ex (\<lambda>(lo, hi). (of_char lo :: nat) \<le> of_char c \<and> (of_char c :: nat) \<le> of_char hi) cls"

fun match_class_times :: "char_class \<Rightarrow> nat \<Rightarrow> string \<Rightarrow> string option" where
  "match_class_times cls 0 s = Some s"
| "match_class_times cls (Suc n) [] = None"
| "match_class_times cls (Suc n) (c # s) =
     (if in_class cls c then match_class_times cls n s else None)"

definition hex_class :: char_class where
  "hex_class = [(CHR ''a'', CHR ''f''), (CHR ''A'', CHR ''F''), (CHR ''0'', CHR ''9'')]"

definition bagid_regex_test :: "string \<Rightarrow> bool" where
  "bagid_regex_test s = (case match_class_times hex_class 64 s of Some rest \<Rightarrow> rest = [] | None \<Rightarrow> False)"

definition isValidBagId :: "jsval \<Rightarrow> bool" where
  "isValidBagId bagId = (case bagId of Str s \<Rightarrow> bagid_regex_test s | _ \<Rightarrow> False)"

text \<open>The hexadecimal digits as the specification lists them.\<close>

definition hex_digits :: "char set" where
  "hex_digits = set ''0123456789abcdefABCDEF''"

subsection \<open>Navigation URLs\<close>

text \<open>\<open>String.prototype.includes\<close>: the pattern occurs at some position.\<close>

fun str_includes :: "string \<Rightarrow> string \<Rightarrow> bool" where
  "str_includes [] p = (p = [])"
| "str_includes (c # s) p = (startsWith (c # s) p \<or> str_includes s p)"

text \<open>
  \<open>new URL(s).protocol\<close> is the platform's URL parser (the WHATWG URL Standard), not
  code of this repository. \<open>isValidNavigationUrl\<close> reads one thing from it: the
  protocol, or the fact that the constructor throws. It is therefore a parameter of the
  function: a parser maps a string to \<open>Some protocol\<close>, or to \<open>None\<close> when it throws.
\<close>

record nav_result =
  valid :: bool
  error :: "string option"

definition ALLOWED_SCHEMES :: "string list" where
  "ALLOWED_SCHEMES = [''http:'', ''https:'', ''ton:'']"

definition DANGEROUS_SCHEMES :: "string list" where
  "DANGEROUS_SCHEMES = [''javascript:'', ''data:'', ''file:'', ''vbscript:'']"

definition isValidNavigationUrl_with :: "(string \<Rightarrow> string option) \<Rightarrow> string \<Rightarrow> nav_result" where
  "isValidNavigationUrl_with parse url =
     (if startsWith url ''ton://'' then \<lparr>valid = True, error = None\<rparr>
      else
        let urlToParse = (if \<not> str_includes url ''://'' then ''http://'' @ url else url) in
        case parse urlToParse of
          None \<Rightarrow> \<lparr>valid = False, error = Some ''Invalid URL format''\<rparr>
        | Some protocol \<Rightarrow>
            if protocol \<notin> set ALLOWED_SCHEMES
              then \<lparr>valid = False, error = Some (''Blocked scheme: '' @ protocol)\<rparr>
            else if protocol \<in> set DANGEROUS_SCHEMES
              then \<lparr>valid = False, error = Some (''Dangerous scheme: '' @ protocol)\<rparr>
            else \<lparr>valid = True, error = None\<rparr>)"

text \<open>
  A model of the platform parser, following the URL Standard's state machine as far as
  it decides whether the constructor throws on an authority: leading and trailing
  control characters and spaces are stripped and tabs and newlines removed; the scheme
  is a letter followed by letters, digits, \<open>+\<close>, \<open>-\<close>, \<open>.\<close> up to the first \<open>:\<close>, in lower
  case; a special scheme (\<open>http\<close>, \<open>https\<close>, \<open>ws\<close>, \<open>wss\<close>, \<open>ftp\<close>) has an authority after any
  run of slashes, other schemes have one after \<open>//\<close>; in the authority, what follows the
  last \<open>@\<close> is the host and an optional \<open>:port\<close>; a special scheme needs a host, a host
  holds no forbidden code point, and a port is a run of digits of value at most 65535.
  Percent-decoding, internationalised names, the numeric validity of IPv4 and IPv6
  literals and the host of a \<open>file:\<close> URL are not modelled.
\<close>

definition is_alpha :: "char \<Rightarrow> bool" where
  "is_alpha c = (let n = (of_char c :: nat) in (65 \<le> n \<and> n \<le> 90) \<or> (97 \<le> n \<and> n \<le> 122))"

definition is_digit :: "char \<Rightarrow> bool" where
  "is_digit c = (let n = (of_char c :: nat) in 48 \<le> n \<and> n \<le> 57)"

definition to_lower :: "char \<Rightarrow> char" where
  "to_lower c = (let n = (of_char c :: nat) in if 65 \<le> n \<and> n \<le> 90 then char_of (n + 32) else c)"

definition scheme_char :: "char \<Rightarrow> bool" where
  "scheme_char c = (is_alpha c \<or> is_digit c \<or> c \<in> set ''+-.'')"

definition is_c0_or_space :: "char \<Rightarrow> bool" where
  "is_c0_or_space c = ((of_char c :: nat) \<le> 32)"

definition is_tab_or_newline :: "char \<Rightarrow> bool" where
  "is_tab_or_newline c = ((of_char c :: nat) \<in> {9, 10, 13})"

definition strip_url :: "string \<Rightarrow> string" where
  "strip_url s =
     filter (\<lambda>c. \<not> is_tab_or_newline c)
       (rev (dropWhile is_c0_or_space (rev (dropWhile is_c0_or_space s))))"

definition parse_scheme :: "string \<Rightarrow> (string \<times> string) option" where
  "parse_scheme s =
     (case s of
        [] \<Rightarrow> None
      | c # cs \<Rightarrow>
          if \<not> is_alpha c then None
          else (case dropWhile scheme_char s of
                  [] \<Rightarrow> None
                | d # rest \<Rightarrow>
                    if d = CHR '':'' then Some (map to_lower (takeWhile scheme_char s), rest)
                    else None))"

definition is_slash :: "char \<Rightarrow> bool" where
  "is_slash c = (c = CHR ''/'' \<or> c = CHR 0x5C)"

definition ends_authority :: "bool \<Rightarrow> char \<Rightarrow> bool" where
  "ends_authority special c =
     (c = CHR ''/'' \<or> c = CHR ''?'' \<or> c = CHR ''#'' \<or> (special \<and> c = CHR 0x5C))"

definition forbidden_host_char :: "char \<Rightarrow> bool" where
  "forbidden_host_char c =
     ((of_char c :: nat) \<in> {0, 9, 10, 13, 32} \<or> c \<in> set ''#/:<>?@[]^|'' \<or> c = CHR 0x5C)"

text \<open>What follows the last \<open>@\<close> of the authority.\<close>

definition after_credentials :: "string \<Rightarrow> string" where
  "after_credentials a = rev (takeWhile (\<lambda>c. c \<noteq> CHR ''@'') (rev a))"

text \<open>The host and the port of what follows the credentials. A host that opens with
  \<open>[\<close> runs to the first \<open>]\<close>; any other host runs to the first \<open>:\<close>.\<close>

definition split_host_port :: "string \<Rightarrow> string \<times> string option" where
  "split_host_port hp =
     (case hp of
        [] \<Rightarrow> ([], None)
      | c # cs \<Rightarrow>
          if c = CHR ''['' then
            (let n = Suc (length (takeWhile (\<lambda>x. x \<noteq> CHR '']'') hp))
             in (case drop n hp of
                   [] \<Rightarrow> (take n hp, None)
                 | d # port \<Rightarrow> (take n hp, Some (if d = CHR '':'' then port else d # port))))
          else
            (case dropWhile (\<lambda>x. x \<noteq> CHR '':'') hp of
               [] \<Rightarrow> (hp, None)
             | d # port \<Rightarrow> (takeWhile (\<lambda>x. x \<noteq> CHR '':'') hp, Some port)))"

definition host_ok :: "bool \<Rightarrow> string \<Rightarrow> bool" where
  "host_ok special host =
     (case host of
        [] \<Rightarrow> (if special then False else True)
      | c # cs \<Rightarrow>
          if c = CHR ''['' then CHR '']'' \<in> set cs
          else list_all (\<lambda>x. \<not> forbidden_host_char x) host)"

definition port_value :: "string \<Rightarrow> nat" where
  "port_value p = foldl (\<lambda>n c. 10 * n + ((of_char c :: nat) - 48)) 0 p"

definition port_ok :: "string option \<Rightarrow> bool" where
  "port_ok p = (case p of None \<Rightarrow> True | Some ds \<Rightarrow> list_all is_digit ds \<and> port_value ds \<le> 65535)"

definition authority_ok :: "bool \<Rightarrow> string \<Rightarrow> bool" where
  "authority_ok special a =
     (let hp = after_credentials a in
      if CHR ''@'' \<in> set a \<and> hp = [] then False
      else
        (case split_host_port hp of (host, port) \<Rightarrow> host_ok special host \<and> port_ok port))"

definition URL_protocol :: "string \<Rightarrow> string option" where
  "URL_protocol s =
     (case parse_scheme (strip_url s) of
        None \<Rightarrow> None
      | Some (scheme, rest) \<Rightarrow>
          if scheme \<in> set [''http'', ''https'', ''ws'', ''wss'', ''ftp''] then
            (if authority_ok True (takeWhile (\<lambda>c. \<not> ends_authority True c) (dropWhile is_slash rest))
               then Some (scheme @ '':'') else None)
          else if scheme = ''file'' then Some ''file:''
          else if startsWith rest ''//'' then
            (if authority_ok False (takeWhile (\<lambda>c. \<not> ends_authority False c) (drop 2 rest))
               then Some (scheme @ '':'') else None)
          else Some (scheme @ '':''))"

definition isValidNavigationUrl :: "string \<Rightarrow> nav_result" where
  "isValidNavigationUrl url = isValidNavigationUrl_with URL_protocol url"


subsection \<open>Rate limiter\<close>

text \<open>
  \<open>class RateLimiter\<close>: the recorded call times, the maximum count and the window.
  \<open>Date.now()\<close> is an argument of \<open>check\<close>; times are integer milliseconds.
  \<open>check\<close> returns its boolean together with the updated object.
\<close>

record RateLimiter =
  calls :: "int list"
  maxCalls :: int
  windowMs :: int

definition new_RateLimiter :: "int \<Rightarrow> int \<Rightarrow> RateLimiter" where
  "new_RateLimiter n w = \<lparr>calls = [], maxCalls = n, windowMs = w\<rparr>"

definition check :: "int \<Rightarrow> RateLimiter \<Rightarrow> bool \<times> RateLimiter" where
  "check now rl =
     (let pruned = filter (\<lambda>t. now - t < windowMs rl) (calls rl) in
      if int (length pruned) \<ge> maxCalls rl then (False, rl\<lparr>calls := pruned\<rparr>)
      else (True, rl\<lparr>calls := pruned @ [now]\<rparr>))"

definition reset :: "RateLimiter \<Rightarrow> RateLimiter" where
  "reset rl = rl\<lparr>calls := []\<rparr>"

text \<open>\<open>k\<close> calls of \<open>check\<close> at the same instant, with their results in order.\<close>

fun check_times :: "nat \<Rightarrow> int \<Rightarrow> RateLimiter \<Rightarrow> bool list \<times> RateLimiter" where
  "check_times 0 now rl = ([], rl)"
| "check_times (Suc k) now rl =
     (let (b, rl') = check now rl; (bs, rl'') = check_times k now rl' in (b # bs, rl''))"

section \<open>Storage HTTP client records (storage/http-client.ts)\<close>

record BagInfo =
  bag_id :: string
  description :: string
  downloaded :: jsnum
  size_bi :: jsnum
  download_speed :: jsnum
  upload_speed :: jsnum
  files_count :: jsnum
  dir_name :: string
  completed :: bool
  header_loaded :: bool
  info_loaded :: bool
  active :: bool
  seeding :: bool
  peers :: jsnum

section \<open>Storage manager: bag mapping (storage/daemon.ts)\<close>

datatype bag_status = Downloading | Seeding | Paused | Errored

record StorageBag =
  id_sb :: string
  name :: string
  size_sb :: jsnum
  downloaded_sb :: jsnum
  downloadSpeed :: jsnum
  uploadSpeed :: jsnum
  peers_sb :: jsnum
  filesCount :: jsnum
  status :: bag_status

text \<open>The \<open>if / else if / else if\<close> chain of \<open>mapBagInfo\<close>, starting from
  \<open>'downloading'\<close>.\<close>

definition mapBagInfo_status :: "BagInfo \<Rightarrow> bag_status" where
  "mapBagInfo_status info =
     (if \<not> active info then Paused
      else if completed info \<and> seeding info then Seeding
      else if completed info then Seeding
      else Downloading)"

definition bag_label :: "string \<Rightarrow> string" where
  "bag_label bid = ''Bag '' @ take 8 bid @ ''...''"

definition mapBagInfo :: "BagInfo \<Rightarrow> StorageBag" where
  "mapBagInfo info =
     \<lparr>id_sb = bag_id info,
      name = (if description info \<noteq> [] then description info
              else if dir_name info \<noteq> [] then dir_name info
              else bag_label (bag_id info)),
      size_sb = size_bi info,
      downloaded_sb = downloaded info,
      downloadSpeed = download_speed info,
      uploadSpeed = upload_speed info,
      peers_sb = peers info,
      filesCount = files_count info,
      status = mapBagInfo_status info\<rparr>"


section \<open>Settings store (settings/index.ts)\<close>

subsection \<open>Objects\<close>

text \<open>
  \<open>obj[k]\<close> on an object literal: the value stored under \<open>k\<close>, \<open>undefined\<close> when there is
  none. \<open>read_prop\<close> is the read \<open>v.k\<close> on any value; every such read below stands behind a
  truthiness test or a successful validation, so its receiver is never \<open>null\<close> or
  \<open>undefined\<close>, and a primitive or an array has none of the properties named here.
\<close>

definition get_prop :: "jsobj \<Rightarrow> string \<Rightarrow> jsval" where
  "get_prop obj k = (case map_of obj k of Some v \<Rightarrow> v | None \<Rightarrow> Undefined)"

fun read_prop :: "jsval \<Rightarrow> string \<Rightarrow> jsval" where
  "read_prop (Obj kvs) k = get_prop kvs k"
| "read_prop v k = Undefined"

fun entries :: "jsval \<Rightarrow> jsobj" where
  "entries (Obj kvs) = kvs"
| "entries v = []"

text \<open>\<open>obj[k] = v\<close>: an existing property keeps its place, a new one goes last.\<close>

fun set_prop :: "jsobj \<Rightarrow> string \<Rightarrow> jsval \<Rightarrow> jsobj" where
  "set_prop [] k v = [(k, v)]"
| "set_prop ((k', v') # kvs) k v =
     (if k' = k then (k, v) # kvs else (k', v') # set_prop kvs k v)"

text \<open>
  Object spread \<open>{ ...a, ...b }\<close>: the properties of \<open>a\<close>, then those of \<open>b\<close> assigned in
  order. Spreading \<open>undefined\<close> or \<open>null\<close> adds nothing. (The settings store spreads a
  category of a validated document only, which is an object literal or absent.)
\<close>

fun assign :: "jsobj \<Rightarrow> jsobj \<Rightarrow> jsobj" where
  "assign target [] = target"
| "assign target ((k, v) # src) = assign (set_prop target k v) src"

definition spread :: "jsobj \<Rightarrow> jsval \<Rightarrow> jsobj" where
  "spread a b = assign (assign [] a) (entries b)"

subsection \<open>Validation of a parsed settings file\<close>

definition categories :: "string list" where
  "categories = [''general'', ''network'', ''storage'', ''appearance'', ''privacy'', ''advanced'']"

text \<open>The loop over \<open>Object.keys(settings)\<close>: an unknown key is skipped, a known key
  must hold a non-null object that is not an array.\<close>

fun check_categories :: "string list \<Rightarrow> jsobj \<Rightarrow> bool" where
  "check_categories [] settings = True"
| "check_categories (key # keys) settings =
     (if key \<notin> set categories then check_categories keys settings
      else if typeof (get_prop settings key) \<noteq> TObject \<or> get_prop settings key = Null
              \<or> isArray (get_prop settings key) then False
      else check_categories keys settings)"

text \<open>\<open>x !== undefined && typeof x !== t\<close>\<close>

definition present_not_typed :: "jsval \<Rightarrow> jstype \<Rightarrow> bool" where
  "present_not_typed x t = (x \<noteq> Undefined \<and> typeof x \<noteq> t)"

definition network_fields_bad :: "jsval \<Rightarrow> bool" where
  "network_fields_bad network =
     (if present_not_typed (read_prop network ''proxyPort'') TNumber then True
      else if present_not_typed (read_prop network ''storagePort'') TNumber then True
      else if present_not_typed (read_prop network ''autoConnect'') TBoolean then True
      else if present_not_typed (read_prop network ''anonymousMode'') TBoolean then True
      else if present_not_typed (read_prop network ''circuitRotation'') TBoolean then True
      else if present_not_typed (read_prop network ''rotateInterval'') TString then True
      else False)"

definition privacy_fields_bad :: "jsval \<Rightarrow> bool" where
  "privacy_fields_bad privacy = present_not_typed (read_prop privacy ''clearOnExit'') TBoolean"

definition builtin_themes :: "string list" where
  "builtin_themes = [''resistance-dog'', ''utya-duck'', ''midnight-blue'', ''canard-yellow'']"

definition theme_bad :: "jsval \<Rightarrow> bool" where
  "theme_bad theme =
     (let isBuiltIn = (theme \<in> set (map Str builtin_themes));
          isCustom = (case theme of Str s \<Rightarrow> startsWith s ''custom:'' | _ \<Rightarrow> False)
      in \<not> isBuiltIn \<and> \<not> isCustom)"

definition appearance_fields_bad :: "jsval \<Rightarrow> bool" where
  "appearance_fields_bad appearance =
     (if read_prop appearance ''theme'' \<noteq> Undefined \<and> theme_bad (read_prop appearance ''theme'') then True
      else if present_not_typed (read_prop appearance ''defaultZoom'') TNumber then True
      else if read_prop appearance ''customThemes'' \<noteq> Undefined
              \<and> \<not> isArray (read_prop appearance ''customThemes'') then True
      else False)"

definition isValidSettingsObject :: "jsval \<Rightarrow> bool" where
  "isValidSettingsObject obj =
     (if typeof obj \<noteq> TObject \<or> obj = Null \<or> isArray obj then False
      else if \<not> check_categories (map fst (entries obj)) (entries obj) then False
      else if truthy (read_prop obj ''network'') \<and> network_fields_bad (read_prop obj ''network'') then False
      else if truthy (read_prop obj ''privacy'') \<and> privacy_fields_bad (read_prop obj ''privacy'') then False
      else if truthy (read_prop obj ''appearance'') \<and> appearance_fields_bad (read_prop obj ''appearance'')
        then False
      else True)"

subsection \<open>Defaults\<close>

record AppSettings =
  general :: jsobj
  network :: jsobj
  storage :: jsobj
  appearance :: jsobj
  privacy :: jsobj
  advanced :: jsobj

text \<open>
  \<open>getDefaultSettings()\<close> with the values of \<open>DEFAULT_SETTINGS\<close> (shared/defaults.ts).
  Its one input is the platform's default storage path,
  \<open>join(app.getPath('userData'), 'storage')\<close>.
\<close>

definition getDefaultSettings :: "string \<Rightarrow> AppSettings" where
  "getDefaultSettings defaultStoragePath =
     \<lparr>general = [(''homepage'', Str ''ton://start''), (''restoreTabs'', Bool False)],
      network = [(''proxyPort'', Num (Fin 8080)), (''storagePort'', Num (Fin 5555)),
                 (''autoConnect'', Bool False), (''connectionTimeout'', Num (Fin 30)),
                 (''syncCheckInterval'', Num (Fin 3000)), (''anonymousMode'', Bool False),
                 (''circuitRotation'', Bool True), (''rotateInterval'', Str ''10m'')],
      storage = [(''downloadPath'', Str defaultStoragePath),
                 (''pollingInterval'', Num (Fin 2000))],
      appearance = [(''theme'', Str ''resistance-dog''), (''customThemes'', Arr []),
                    (''defaultZoom'', Num (Fin 100)), (''zoomMin'', Num (Fin 30)),
                    (''zoomMax'', Num (Fin 300)), (''showBookmarksBar'', Bool True),
                    (''showStatusBar'', Bool True)],
      privacy = [(''clearOnExit'', Bool True)],
      advanced = [(''proxyVerbosity'', Num (Fin 2)), (''storageVerbosity'', Num (Fin 2)),
                  (''syncTestDomain'', Str ''tonnet-sync-check.ton'')]\<rparr>"

definition settings_object :: "AppSettings \<Rightarrow> jsval" where
  "settings_object s =
     Obj [(''general'', Obj (general s)), (''network'', Obj (network s)),
          (''storage'', Obj (storage s)), (''appearance'', Obj (appearance s)),
          (''privacy'', Obj (privacy s)), (''advanced'', Obj (advanced s))]"

subsection \<open>The settings file and the cache\<close>

text \<open>
  The text of a file is represented by what \<open>JSON.parse\<close> makes of it: \<open>Unparseable\<close>
  when it throws, \<open>Document v\<close> when it returns \<open>v\<close>. \<open>json_text v\<close> is the content
  \<open>JSON.stringify(v, null, 2)\<close> writes: a property holding \<open>undefined\<close> is left out, an
  array element \<open>undefined\<close> and a number that is not finite are written as \<open>null\<close>.
\<close>

datatype file_content = Unparseable | Document jsval

fun json_value :: "jsval \<Rightarrow> jsval" where
  "json_value Undefined = Null"
| "json_value Null = Null"
| "json_value (Bool b) = Bool b"
| "json_value (Num (Fin r)) = Num (Fin r)"
| "json_value (Num x) = Null"
| "json_value (Str s) = Str s"
| "json_value (Arr xs) = Arr (map json_value xs)"
| "json_value (Obj kvs) =
     Obj (map (\<lambda>kv. (fst kv, json_value (snd kv))) (filter (\<lambda>kv. snd kv \<noteq> Undefined) kvs))"

definition json_text :: "jsval \<Rightarrow> file_content" where
  "json_text v = Document (json_value v)"

text \<open>
  The module state (\<open>settingsCache\<close>) and the part of the file system the module
  touches: the settings directory, \<open>app-settings.json\<close> and \<open>app-settings.json.tmp\<close>.
  The four flags say whether \<open>mkdirSync\<close>, \<open>readFileSync\<close>, \<open>writeFileSync\<close> and
  \<open>renameSync\<close> succeed or throw.
\<close>

record world =
  settingsCache :: "AppSettings option"
  dir_exists :: bool
  settings_file :: "file_content option"
  temp_file :: "file_content option"
  mkdir_ok :: bool
  read_ok :: bool
  write_ok :: bool
  rename_ok :: bool

text \<open>
  \<open>saveSettings\<close>: \<open>mkdirSync\<close> stands outside the \<open>try\<close>, so its failure is thrown to
  the caller; a failure of the write or of the rename is caught and logged, and the
  cache is updated only after the rename.
\<close>

definition saveSettings :: "AppSettings \<Rightarrow> world \<Rightarrow> js_error + world" where
  "saveSettings settings w =
     (if \<not> dir_exists w \<and> \<not> mkdir_ok w then Inl (IOError ''mkdirSync'')
      else
        let w1 = w\<lparr>dir_exists := True\<rparr> in
        if \<not> write_ok w1 then Inr w1
        else
          let w2 = w1\<lparr>temp_file := Some (json_text (settings_object settings))\<rparr> in
          if \<not> rename_ok w2 then Inr w2
          else Inr (w2\<lparr>settings_file := temp_file w2, temp_file := None,
                        settingsCache := Some settings\<rparr>))"

text \<open>
  The body of the \<open>try\<close> in \<open>loadSettings\<close>, entered when the file exists. A throw is
  \<open>Inl\<close> with the state reached at that point.
\<close>

definition merge_with_defaults :: "AppSettings \<Rightarrow> jsval \<Rightarrow> AppSettings" where
  "merge_with_defaults defaults loaded =
     \<lparr>general = spread (general defaults) (read_prop loaded ''general''),
      network = spread (network defaults) (read_prop loaded ''network''),
      storage = spread (storage defaults) (read_prop loaded ''storage''),
      appearance = spread (appearance defaults) (read_prop loaded ''appearance''),
      privacy = spread (privacy defaults) (read_prop loaded ''privacy''),
      advanced = spread (advanced defaults) (read_prop loaded ''advanced'')\<rparr>"

definition migrate_theme :: "AppSettings \<Rightarrow> world \<Rightarrow> (js_error \<times> world) + (AppSettings \<times> world)" where
  "migrate_theme merged w =
     (let renamed =
        (if get_prop (appearance merged) ''theme'' = Str ''midnight-blue''
           then Some ''resistance-dog''
         else if get_prop (appearance merged) ''theme'' = Str ''canard-yellow''
           then Some ''utya-duck''
         else None)
      in case renamed of
           None \<Rightarrow> Inr (merged, w)
         | Some theme \<Rightarrow>
             let migrated =
                   merged\<lparr>appearance := set_prop (appearance merged) ''theme'' (Str theme)\<rparr>;
                 w1 = w\<lparr>settingsCache := Some migrated\<rparr>
             in (case saveSettings migrated w1 of
                   Inl e \<Rightarrow> Inl (e, w1)
                 | Inr w2 \<Rightarrow> Inr (migrated, w2)))"

definition load_existing ::
  "AppSettings \<Rightarrow> file_content \<Rightarrow> world \<Rightarrow> (js_error \<times> world) + (AppSettings \<times> world)" where
  "load_existing defaults content w =
     (if \<not> read_ok w then Inl (IOError ''readFileSync'', w)
      else case content of
        Unparseable \<Rightarrow> Inl (SyntaxError ''JSON.parse'', w)
      | Document parsed \<Rightarrow>
          if \<not> isValidSettingsObject parsed then
            let w1 = w\<lparr>settingsCache := Some defaults\<rparr>
            in (case saveSettings defaults w1 of
                  Inl e \<Rightarrow> Inl (e, w1)
                | Inr w2 \<Rightarrow> Inr (defaults, w2))
          else
            let merged = merge_with_defaults defaults parsed
            in migrate_theme merged (w\<lparr>settingsCache := Some merged\<rparr>))"

text \<open>
  \<open>loadSettings\<close>: the cached value if there is one; defaults saved when the file is
  absent; otherwise the \<open>try\<close> body, whose \<open>catch\<close> stores the defaults in the cache and
  returns them without saving.
\<close>

definition loadSettings :: "string \<Rightarrow> world \<Rightarrow> (js_error \<times> world) + (AppSettings \<times> world)" where
  "loadSettings defaultStoragePath w =
     (case settingsCache w of
        Some cached \<Rightarrow> Inr (cached, w)
      | None \<Rightarrow>
          let defaults = getDefaultSettings defaultStoragePath in
          (case settings_file w of
             None \<Rightarrow>
               let w1 = w\<lparr>settingsCache := Some defaults\<rparr>
               in (case saveSettings defaults w1 of
                     Inl e \<Rightarrow> Inl (e, w1)
                   | Inr w2 \<Rightarrow> Inr (defaults, w2))
           | Some content \<Rightarrow>
               (case load_existing defaults content w of
                  Inl (e, w') \<Rightarrow> Inr (defaults, w'\<lparr>settingsCache := Some defaults\<rparr>)
                | Inr r \<Rightarrow> Inr r)))"

definition resetSettings :: "string \<Rightarrow> world \<Rightarrow> js_error + world" where
  "resetSettings defaultStoragePath w = saveSettings (getDefaultSettings defaultStoragePath) w"

subsection \<open>The checked fields, as the specification names them\<close>

text \<open>
  The fields of known categories whose type the validation checks, with the declared
  type of each. A document has a wrong-typed checked field when one of these is present
  in an object-valued category with a value of another type.
\<close>

datatype field_kind = KNumber | KBoolean | KString | KArray

fun has_kind :: "field_kind \<Rightarrow> jsval \<Rightarrow> bool" where
  "has_kind KNumber v = (typeof v = TNumber)"
| "has_kind KBoolean v = (typeof v = TBoolean)"
| "has_kind KString v = (typeof v = TString)"
| "has_kind KArray v = isArray v"

definition checked_fields :: "(string \<times> string \<times> field_kind) list" where
  "checked_fields =
     [(''network'', ''proxyPort'', KNumber), (''network'', ''storagePort'', KNumber),
      (''network'', ''autoConnect'', KBoolean), (''network'', ''anonymousMode'', KBoolean),
      (''network'', ''circuitRotation'', KBoolean), (''network'', ''rotateInterval'', KString),
      (''privacy'', ''clearOnExit'', KBoolean),
      (''appearance'', ''theme'', KString), (''appearance'', ''defaultZoom'', KNumber),
      (''appearance'', ''customThemes'', KArray)]"

definition field_wrong_typed :: "jsval \<Rightarrow> string \<times> string \<times> field_kind \<Rightarrow> bool" where
  "field_wrong_typed doc cf =
     (case cf of (cat, field, k) \<Rightarrow>
        (case read_prop doc cat of
           Obj props \<Rightarrow> get_prop props field \<noteq> Undefined \<and> \<not> has_kind k (get_prop props field)
         | _ \<Rightarrow> False))"

definition has_wrong_typed_field :: "jsval \<Rightarrow> bool" where
  "has_wrong_typed_field doc = list_ex (field_wrong_typed doc) checked_fields"


section \<open>Storage HTTP client calls (storage/http-client.ts)\<close>

text \<open>
  What the platform's \<open>fetch\<close> does with one request: it rejects (no connection), or it
  yields a response with its \<open>ok\<close> flag, status code and body text; \<open>resp_json\<close> is what
  \<open>JSON.parse\<close> makes of that text.
\<close>

record response =
  resp_ok :: bool
  resp_status :: nat
  resp_text :: string
  resp_json :: file_content

datatype fetch_outcome = FetchRejected string | Responded response

text \<open>The private \<open>fetch<T>\<close> of the client: a response that is not \<open>ok\<close> throws
  \<open>HTTP <status>: <body>\<close>, an empty body gives \<open>{}\<close>.\<close>

definition client_fetch :: "fetch_outcome \<Rightarrow> js_error + jsval" where
  "client_fetch outcome =
     (case outcome of
        FetchRejected msg \<Rightarrow> Inl (TypeError msg)
      | Responded r \<Rightarrow>
          if \<not> resp_ok r then Inl (HttpError (resp_status r) (resp_text r))
          else if resp_text r = [] then Inr (Obj [])
          else (case resp_json r of
                  Unparseable \<Rightarrow> Inl (SyntaxError ''JSON.parse'')
                | Document v \<Rightarrow> Inr v))"

text \<open>\<open>listBags\<close>: \<open>result.bags || []\<close>; the property read throws on \<open>null\<close>.\<close>

definition client_listBags :: "fetch_outcome \<Rightarrow> js_error + jsval" where
  "client_listBags outcome =
     (case client_fetch outcome of
        Inl e \<Rightarrow> Inl e
      | Inr result \<Rightarrow>
          if result = Null \<or> result = Undefined
            then Inl (TypeError ''Cannot read properties of null'')
          else Inr (if truthy (read_prop result ''bags'') then read_prop result ''bags''
                    else Arr []))"

text \<open>\<open>ping\<close>: \<open>try { await this.listBags(); return true } catch { return false }\<close>.
  Its result type has a place for a thrown error, like every other call.\<close>

definition ping :: "fetch_outcome \<Rightarrow> js_error + bool" where
  "ping outcome =
     (case client_listBags outcome of
        Inr bags \<Rightarrow> Inr True
      | Inl e \<Rightarrow> Inr False)"

section \<open>Storage manager (storage/daemon.ts)\<close>

text \<open>
  The settings \<open>getSetting\<close> returns when the manager reads them, at the types their
  interfaces declare; the port stays an arbitrary value, since \<open>validatePort\<close> tests it.
\<close>

record storage_config =
  cfg_storagePort :: jsval
  cfg_downloadPath :: string
  cfg_pollingInterval :: jsval
  cfg_storageVerbosity :: jsval

text \<open>
  The fields of \<open>class StorageManager\<close>. A child process is known by the handle
  \<open>spawn\<close> returned, the HTTP client by the port of its base URL, an armed interval
  timer by its period. \<open>sm_waits\<close> is not a field of the class: it holds the calls of
  \<open>start()\<close> that are suspended in \<open>waitForReady\<close>, each with the handle it spawned and
  its loop counter \<open>i\<close>.
\<close>

record StorageManager =
  sm_process :: "nat option"
  sm_port :: jsval
  sm_storagePath :: string
  sm_isRunning :: bool
  sm_client :: "jsval option"
  sm_pollInterval :: "jsval option"
  sm_waits :: "(nat \<times> nat) list"

definition new_StorageManager :: "string \<Rightarrow> StorageManager" where
  "new_StorageManager downloadPath =
     \<lparr>sm_process = None, sm_port = Num (Fin 0), sm_storagePath = downloadPath,
      sm_isRunning = False, sm_client = None, sm_pollInterval = None, sm_waits = []\<rparr>"

text \<open>What an observer sees: the spawn with its arguments, the events the manager
  emits, and the settling of a call of \<open>start()\<close>.\<close>

datatype sm_obs =
    SmSpawned nat jsval jsval
  | SmLog string
  | SmError string
  | SmExited jsval
  | SmStarted
  | SmStopped
  | SmBagsUpdated "StorageBag list"
  | SmStartRejected js_error
  | SmStartResolved nat

text \<open>What happens to the manager: a call of a method, an event of the child process,
  the end of one \<open>await\<close> of a suspended \<open>start()\<close>, a tick of the polling timer.\<close>

datatype sm_input =
    SmStart storage_config nat bool
  | SmPingDone nat bool storage_config
  | SmStdout string
  | SmStderr string
  | SmExit jsval
  | SmSpawnError string
  | SmStop
  | SmPollTick "js_error + BagInfo list"

definition is_js_space :: "char \<Rightarrow> bool" where
  "is_js_space c = ((of_char c :: nat) \<in> {9, 10, 11, 12, 13, 32, 160})"

definition js_trim :: "string \<Rightarrow> string" where
  "js_trim s = rev (dropWhile is_js_space (rev (dropWhile is_js_space s)))"

definition maxAttempts :: nat where
  "maxAttempts = 30"

definition sm_loadSettings :: "storage_config \<Rightarrow> StorageManager \<Rightarrow> StorageManager" where
  "sm_loadSettings cfg m = m\<lparr>sm_port := cfg_storagePort cfg, sm_storagePath := cfg_downloadPath cfg\<rparr>"

definition sm_stopPolling :: "StorageManager \<Rightarrow> StorageManager" where
  "sm_stopPolling m = m\<lparr>sm_pollInterval := None\<rparr>"

text \<open>
  \<open>start()\<close> up to its \<open>await\<close>. \<open>SmStart cfg h dirs_ok\<close>: the settings read, the handle
  \<open>spawn\<close> is going to return, and whether the storage directories exist or can be
  made. The first iteration of \<open>waitForReady\<close> finds the client just created and issues
  its ping.
\<close>

definition sm_start :: "storage_config \<Rightarrow> nat \<Rightarrow> bool \<Rightarrow> StorageManager \<Rightarrow> sm_obs list \<times> StorageManager" where
  "sm_start cfg h dirs_ok m =
     (if sm_process m \<noteq> None then ([SmStartRejected (Error ''Storage daemon already running'')], m)
      else
        let m1 = sm_loadSettings cfg m in
        if \<not> dirs_ok then ([SmStartRejected (IOError ''mkdirSync'')], m1)
        else
          let safePort = validatePort (sm_port m1) (Fin 5555);
              safeVerbosity = validateVerbosity (cfg_storageVerbosity cfg) (Fin 2)
          in ([SmSpawned h safePort safeVerbosity],
              m1\<lparr>sm_port := safePort, sm_process := Some h, sm_client := Some safePort,
                 sm_waits := sm_waits m1 @ [(h, 0)]\<rparr>))"

text \<open>After \<open>waitForReady\<close> returns: \<open>isRunning = true\<close>, \<open>started\<close> is emitted, and
  \<open>startPolling\<close> reads the settings again and arms the timer.\<close>

definition sm_started :: "nat \<Rightarrow> storage_config \<Rightarrow> StorageManager \<Rightarrow> sm_obs list \<times> StorageManager" where
  "sm_started h cfg m =
     ([SmStarted, SmStartResolved h],
      (sm_loadSettings cfg (m\<lparr>sm_isRunning := True\<rparr>))
        \<lparr>sm_pollInterval := Some (cfg_pollingInterval cfg)\<rparr>)"

text \<open>
  One turn of the loop of \<open>waitForReady\<close> for the suspended call that spawned \<open>h\<close>: its
  ping has answered \<open>ready\<close>. If not ready, the call sleeps, increments \<open>i\<close>, and either
  leaves the loop (\<open>i\<close> has reached \<open>maxAttempts\<close>, or the client is gone) and throws, or
  issues the next ping.
\<close>

definition remove_wait :: "nat \<Rightarrow> (nat \<times> nat) list \<Rightarrow> (nat \<times> nat) list" where
  "remove_wait h ws = filter (\<lambda>w. fst w \<noteq> h) ws"

definition sm_ping_done :: "nat \<Rightarrow> bool \<Rightarrow> storage_config \<Rightarrow> StorageManager \<Rightarrow> sm_obs list \<times> StorageManager" where
  "sm_ping_done h ready cfg m =
     (case map_of (sm_waits m) h of
        None \<Rightarrow> ([], m)
      | Some i \<Rightarrow>
          if ready then sm_started h cfg (m\<lparr>sm_waits := remove_wait h (sm_waits m)\<rparr>)
          else if Suc i < maxAttempts \<and> sm_client m \<noteq> None
            then ([], m\<lparr>sm_waits := map (\<lambda>w. if fst w = h then (h, Suc i) else w) (sm_waits m)\<rparr>)
          else ([SmStartRejected (Error ''Storage daemon API did not become ready'')],
                m\<lparr>sm_waits := remove_wait h (sm_waits m)\<rparr>))"

text \<open>The listeners \<open>start()\<close> attaches to the child; \<open>stop()\<close> removes them, and a child
  that is no longer held delivers nothing.\<close>

definition sm_stdout :: "string \<Rightarrow> StorageManager \<Rightarrow> sm_obs list \<times> StorageManager" where
  "sm_stdout chunk m =
     (if sm_process m = None \<or> js_trim chunk = [] then ([], m) else ([SmLog (js_trim chunk)], m))"

definition sm_stderr :: "string \<Rightarrow> StorageManager \<Rightarrow> sm_obs list \<times> StorageManager" where
  "sm_stderr chunk m =
     (if sm_process m = None \<or> js_trim chunk = [] then ([], m) else ([SmError (js_trim chunk)], m))"

definition sm_exit :: "jsval \<Rightarrow> StorageManager \<Rightarrow> sm_obs list \<times> StorageManager" where
  "sm_exit code m =
     (if sm_process m = None then ([], m)
      else ([SmExited code],
            sm_stopPolling (m\<lparr>sm_isRunning := False, sm_process := None, sm_client := None\<rparr>)))"

definition sm_spawn_error :: "string \<Rightarrow> StorageManager \<Rightarrow> sm_obs list \<times> StorageManager" where
  "sm_spawn_error msg m = (if sm_process m = None then ([], m) else ([SmError msg], m))"

definition sm_stop :: "StorageManager \<Rightarrow> sm_obs list \<times> StorageManager" where
  "sm_stop m =
     (let m1 = sm_stopPolling m in
      if sm_process m1 = None then ([], m1)
      else ([SmStopped], m1\<lparr>sm_process := None, sm_client := None, sm_isRunning := False\<rparr>))"

text \<open>A tick of the polling timer; its argument is the outcome of \<open>client.listBags()\<close>.\<close>

definition sm_poll_tick :: "js_error + BagInfo list \<Rightarrow> StorageManager \<Rightarrow> sm_obs list \<times> StorageManager" where
  "sm_poll_tick listed m =
     (if sm_pollInterval m = None \<or> sm_client m = None \<or> \<not> sm_isRunning m then ([], m)
      else (case listed of
              Inr bags \<Rightarrow> ([SmBagsUpdated (map mapBagInfo bags)], m)
            | Inl e \<Rightarrow> ([], m)))"

fun sm_step :: "sm_input \<Rightarrow> StorageManager \<Rightarrow> sm_obs list \<times> StorageManager" where
  "sm_step (SmStart cfg h dirs_ok) m = sm_start cfg h dirs_ok m"
| "sm_step (SmPingDone h ready cfg) m = sm_ping_done h ready cfg m"
| "sm_step (SmStdout chunk) m = sm_stdout chunk m"
| "sm_step (SmStderr chunk) m = sm_stderr chunk m"
| "sm_step (SmExit code) m = sm_exit code m"
| "sm_step (SmSpawnError msg) m = sm_spawn_error msg m"
| "sm_step SmStop m = sm_stop m"
| "sm_step (SmPollTick listed) m = sm_poll_tick listed m"

text \<open>A history: the observations of each input in turn, and the manager at the end.\<close>

fun sm_run :: "sm_input list \<Rightarrow> StorageManager \<Rightarrow> sm_obs list list \<times> StorageManager" where
  "sm_run [] m = ([], m)"
| "sm_run (e # es) m =
     (let (obs, m') = sm_step e m; (rest, m'') = sm_run es m' in (obs # rest, m''))"

fun is_SmStart :: "sm_input \<Rightarrow> bool" where
  "is_SmStart (SmStart cfg h dirs_ok) = True"
| "is_SmStart e = False"

fun is_SmExit :: "sm_input \<Rightarrow> bool" where
  "is_SmExit (SmExit code) = True"
| "is_SmExit e = False"

subsection \<open>Bag operations\<close>

text \<open>Each takes the outcome of the client call it awaits, which is consulted only
  when a client is held.\<close>

definition StorageManager_addBag ::
  "StorageManager \<Rightarrow> string \<Rightarrow> string option \<Rightarrow> js_error + jsval \<Rightarrow> js_error + StorageBag" where
  "StorageManager_addBag m bagId downloadPath added =
     (if sm_client m = None then Inl (Error ''Storage daemon not running'')
      else (case added of
              Inl e \<Rightarrow> Inl e
            | Inr r \<Rightarrow>
                Inr \<lparr>id_sb = bagId, name = bag_label bagId, size_sb = Fin 0,
                     downloaded_sb = Fin 0, downloadSpeed = Fin 0, uploadSpeed = Fin 0,
                     peers_sb = Fin 0, filesCount = Fin 0, status = Downloading\<rparr>))"

definition StorageManager_removeBag ::
  "StorageManager \<Rightarrow> string \<Rightarrow> bool \<Rightarrow> js_error + bool \<Rightarrow> js_error + bool" where
  "StorageManager_removeBag m bagId withFiles removed =
     (if sm_client m = None then Inl (Error ''Storage daemon not running'') else removed)"

definition StorageManager_listBags ::
  "StorageManager \<Rightarrow> js_error + BagInfo list \<Rightarrow> js_error + StorageBag list" where
  "StorageManager_listBags m listed =
     (if sm_client m = None then Inr []
      else (case listed of Inl e \<Rightarrow> Inl e | Inr bags \<Rightarrow> Inr (map mapBagInfo bags)))"

definition StorageManager_pauseBag ::
  "StorageManager \<Rightarrow> string \<Rightarrow> js_error + bool \<Rightarrow> js_error + bool" where
  "StorageManager_pauseBag m bagId stopped =
     (if sm_client m = None then Inl (Error ''Storage daemon not running'') else stopped)"

definition StorageManager_getBagDetails ::
  "StorageManager \<Rightarrow> string \<Rightarrow> js_error + jsval \<Rightarrow> js_error + jsval" where
  "StorageManager_getBagDetails m bagId details =
     (if sm_client m = None then Inl (Error ''Storage daemon not running'') else details)"


section \<open>Proxy manager (proxy/manager.ts)\<close>

datatype ProxyStatus = Stopped | Starting | Syncing | Connected

record proxy_config =
  cfg_proxyPort :: jsval
  cfg_anonymousMode :: bool
  cfg_circuitRotation :: bool
  cfg_rotateInterval :: string
  cfg_connectionTimeout :: jsval
  cfg_syncCheckInterval :: jsval
  cfg_syncTestDomain :: string

text \<open>
  The fields of \<open>class ProxyManager\<close>; \<open>circuitRelays\<close> is the array
  \<open>[entry, middle, exit]\<close>, whose slots fill independently. \<open>pm_waits\<close> is not a field of
  the class: it holds the calls of \<open>start()\<close> suspended in \<open>waitForReady\<close>, by the handle
  each spawned; every one of them has its own timeout timer.
\<close>

record ProxyManager =
  pm_process :: "nat option"
  pm_port :: jsval
  pm_status :: ProxyStatus
  pm_syncCheckInterval :: "jsval option"
  pm_anonymousMode :: bool
  pm_circuitRotation :: bool
  pm_rotateInterval :: string
  pm_circuitRelays :: "string option \<times> string option \<times> string option"
  pm_waits :: "nat list"

definition new_ProxyManager :: ProxyManager where
  "new_ProxyManager =
     \<lparr>pm_process = None, pm_port = Num (Fin 0), pm_status = Stopped,
      pm_syncCheckInterval = None, pm_anonymousMode = False, pm_circuitRotation = True,
      pm_rotateInterval = ''10m'', pm_circuitRelays = (None, None, None), pm_waits = []\<rparr>"

text \<open>The argument vector of \<open>spawn\<close>: \<open>--direct\<close> or \<open>--auto\<close>, the port after
  \<open>--listen 127.0.0.1:\<close>, and the value of \<open>--rotate=\<close> if present.\<close>

record proxy_args =
  arg_direct :: bool
  arg_listen_port :: jsval
  arg_rotate :: "string option"

datatype pm_obs =
    PmSpawned nat proxy_args
  | PmStatus ProxyStatus
  | PmLog string
  | PmError string
  | PmExited jsval
  | PmDisconnected
  | PmStartRejected js_error
  | PmStartResolved nat

text \<open>The outcome of one sync probe: a response with its status code, a network
  error, or the request's timeout.\<close>

datatype probe = ProbeResponse nat | ProbeError | ProbeTimeout

datatype pm_input =
    PmStart proxy_config nat
  | PmReadyTimeout nat
  | PmStdout string proxy_config
  | PmStderr string
  | PmExit jsval
  | PmSpawnError string
  | PmStop
  | PmSyncTick probe

definition pm_loadSettings :: "proxy_config \<Rightarrow> ProxyManager \<Rightarrow> ProxyManager" where
  "pm_loadSettings cfg m = m\<lparr>pm_port := cfg_proxyPort cfg\<rparr>"

definition pm_setStatus :: "ProxyStatus \<Rightarrow> ProxyManager \<Rightarrow> pm_obs list \<times> ProxyManager" where
  "pm_setStatus s m = ([PmStatus s], m\<lparr>pm_status := s\<rparr>)"

definition pm_spawn_args :: "proxy_config \<Rightarrow> jsval \<Rightarrow> proxy_args" where
  "pm_spawn_args cfg safePort =
     (if cfg_anonymousMode cfg then
        \<lparr>arg_direct = False, arg_listen_port = safePort,
         arg_rotate = (if cfg_circuitRotation cfg \<and> cfg_rotateInterval cfg \<noteq> []
                       then Some (cfg_rotateInterval cfg) else None)\<rparr>
      else \<lparr>arg_direct = True, arg_listen_port = safePort, arg_rotate = None\<rparr>)"

text \<open>
  \<open>start()\<close> up to its \<open>await\<close>: the guard, the settings, the validated port, status
  \<open>starting\<close>, the spawn, and the entry of \<open>waitForReady\<close>, which reads the settings once
  more (storing the configured port again) and arms its timeout.
\<close>

definition pm_start :: "proxy_config \<Rightarrow> nat \<Rightarrow> ProxyManager \<Rightarrow> pm_obs list \<times> ProxyManager" where
  "pm_start cfg h m =
     (if pm_process m \<noteq> None then ([PmStartRejected (Error ''Proxy already running'')], m)
      else
        let m1 = pm_loadSettings cfg m;
            safePort = validatePort (pm_port m1) (Fin 8080);
            m2 = m1\<lparr>pm_port := safePort, pm_anonymousMode := cfg_anonymousMode cfg,
                    pm_circuitRotation := cfg_circuitRotation cfg,
                    pm_rotateInterval := cfg_rotateInterval cfg\<rparr>;
            (obs, m3) = pm_setStatus Starting m2;
            m4 = pm_loadSettings cfg (m3\<lparr>pm_process := Some h\<rparr>)
        in (obs @ [PmSpawned h (pm_spawn_args cfg safePort)], m4\<lparr>pm_waits := pm_waits m4 @ [h]\<rparr>))"

text \<open>The timeout of \<open>waitForReady\<close> for the call that spawned \<open>h\<close>: the call is rejected;
  nothing else is done.\<close>

definition pm_ready_timeout :: "nat \<Rightarrow> ProxyManager \<Rightarrow> pm_obs list \<times> ProxyManager" where
  "pm_ready_timeout h m =
     (if h \<in> set (pm_waits m)
        then ([PmStartRejected (Error ''Proxy failed to start within timeout'')],
              m\<lparr>pm_waits := removeAll h (pm_waits m)\<rparr>)
      else ([], m))"

text \<open>The three extractions \<open>/Entry:\s+(\w+)/\<close>, \<open>/Middle:\s+(\w+)/\<close>, \<open>/Exit:\s+(\w+)/\<close>:
  the leftmost place where the label is followed by white space and then a word.\<close>

definition is_word_char :: "char \<Rightarrow> bool" where
  "is_word_char c = (is_alpha c \<or> is_digit c \<or> c = CHR ''_'')"

fun match_label :: "string \<Rightarrow> string \<Rightarrow> string option" where
  "match_label label [] = None"
| "match_label label (c # s) =
     (let after = drop (length label) (c # s);
          word = takeWhile is_word_char (dropWhile is_js_space after)
      in if startsWith (c # s) label \<and> takeWhile is_js_space after \<noteq> [] \<and> word \<noteq> []
           then Some word
         else match_label label s)"

definition update_relays ::
  "string \<Rightarrow> string option \<times> string option \<times> string option
     \<Rightarrow> string option \<times> string option \<times> string option" where
  "update_relays message relays =
     (case relays of (entry, middle, exit) \<Rightarrow>
        ((case match_label ''Entry:'' message of Some w \<Rightarrow> Some w | None \<Rightarrow> entry),
         (case match_label ''Middle:'' message of Some w \<Rightarrow> Some w | None \<Rightarrow> middle),
         (case match_label ''Exit:'' message of Some w \<Rightarrow> Some w | None \<Rightarrow> exit)))"

text \<open>After \<open>waitForReady\<close> resolves: status \<open>syncing\<close>, and \<open>startSyncCheck\<close> reads the
  settings and arms the sync timer.\<close>

definition pm_ready :: "nat \<Rightarrow> proxy_config \<Rightarrow> ProxyManager \<Rightarrow> pm_obs list \<times> ProxyManager" where
  "pm_ready h cfg m =
     (let (obs, m1) = pm_setStatus Syncing (m\<lparr>pm_waits := removeAll h (pm_waits m)\<rparr>);
          m2 = pm_loadSettings cfg m1
      in (obs @ [PmStartResolved h], m2\<lparr>pm_syncCheckInterval := Some (cfg_syncCheckInterval cfg)\<rparr>))"

text \<open>
  A chunk on the standard output of the held child: the log listener, then
  \<open>checkOutput\<close> of the call that spawned this child, if it is still suspended.
\<close>

definition pm_stdout :: "string \<Rightarrow> proxy_config \<Rightarrow> ProxyManager \<Rightarrow> pm_obs list \<times> ProxyManager" where
  "pm_stdout chunk cfg m =
     (case pm_process m of
        None \<Rightarrow> ([], m)
      | Some h \<Rightarrow>
          let m1 = (if pm_anonymousMode m
                    then m\<lparr>pm_circuitRelays := update_relays (js_trim chunk) (pm_circuitRelays m)\<rparr>
                    else m)
          in if h \<in> set (pm_waits m1) \<and> str_includes chunk ''Proxy listening''
               then (let (obs, m2) = pm_ready h cfg m1 in (PmLog (js_trim chunk) # obs, m2))
             else ([PmLog (js_trim chunk)], m1))"

definition pm_stderr :: "string \<Rightarrow> ProxyManager \<Rightarrow> pm_obs list \<times> ProxyManager" where
  "pm_stderr chunk m =
     (if pm_process m = None \<or> js_trim chunk = [] then ([], m) else ([PmError (js_trim chunk)], m))"

definition pm_exit :: "jsval \<Rightarrow> ProxyManager \<Rightarrow> pm_obs list \<times> ProxyManager" where
  "pm_exit code m =
     (if pm_process m = None then ([], m)
      else
        let (obs, m1) = pm_setStatus Stopped m
        in (obs @ [PmExited code], m1\<lparr>pm_process := None, pm_syncCheckInterval := None\<rparr>))"

definition pm_spawn_error :: "string \<Rightarrow> ProxyManager \<Rightarrow> pm_obs list \<times> ProxyManager" where
  "pm_spawn_error msg m = (if pm_process m = None then ([], m) else ([PmError msg], m))"

definition pm_stop :: "ProxyManager \<Rightarrow> pm_obs list \<times> ProxyManager" where
  "pm_stop m =
     (let m1 = m\<lparr>pm_syncCheckInterval := None\<rparr> in
      if pm_process m1 = None then ([], m1)
      else
        let (obs, m2) =
              pm_setStatus Stopped (m1\<lparr>pm_process := None, pm_circuitRelays := (None, None, None)\<rparr>)
        in (obs @ [PmDisconnected], m2))"

text \<open>\<open>checkSync\<close>: any response whose status is not 502 means synced.\<close>

definition checkSync :: "probe \<Rightarrow> bool" where
  "checkSync p = (case p of ProbeResponse code \<Rightarrow> code \<noteq> 502 | _ \<Rightarrow> False)"

definition pm_sync_tick :: "probe \<Rightarrow> ProxyManager \<Rightarrow> pm_obs list \<times> ProxyManager" where
  "pm_sync_tick p m =
     (if pm_syncCheckInterval m = None \<or> \<not> checkSync p then ([], m)
      else
        let (obs, m1) = pm_setStatus Connected m
        in (obs, m1\<lparr>pm_syncCheckInterval := None\<rparr>))"

fun pm_step :: "pm_input \<Rightarrow> ProxyManager \<Rightarrow> pm_obs list \<times> ProxyManager" where
  "pm_step (PmStart cfg h) m = pm_start cfg h m"
| "pm_step (PmReadyTimeout h) m = pm_ready_timeout h m"
| "pm_step (PmStdout chunk cfg) m = pm_stdout chunk cfg m"
| "pm_step (PmStderr chunk) m = pm_stderr chunk m"
| "pm_step (PmExit code) m = pm_exit code m"
| "pm_step (PmSpawnError msg) m = pm_spawn_error msg m"
| "pm_step PmStop m = pm_stop m"
| "pm_step (PmSyncTick p) m = pm_sync_tick p m"

fun pm_run :: "pm_input list \<Rightarrow> ProxyManager \<Rightarrow> pm_obs list list \<times> ProxyManager" where
  "pm_run [] m = ([], m)"
| "pm_run (e # es) m =
     (let (obs, m') = pm_step e m; (rest, m'') = pm_run es m' in (obs # rest, m''))"

fun is_PmStart :: "pm_input \<Rightarrow> bool" where
  "is_PmStart (PmStart cfg h) = True"
| "is_PmStart e = False"

fun is_PmExit :: "pm_input \<Rightarrow> bool" where
  "is_PmExit (PmExit code) = True"
| "is_PmExit e = False"


subsection \<open>Scenarios\<close>

text \<open>A process that has not loaded its settings yet, on a disk where every operation
  succeeds, with the given content of the settings file (\<open>None\<close>: no file).\<close>

definition fresh_world :: "file_content option \<Rightarrow> world" where
  "fresh_world content =
     \<lparr>settingsCache = None, dir_exists = True, settings_file = content, temp_file = None,
      mkdir_ok = True, read_ok = True, write_ok = True, rename_ok = True\<rparr>"

text \<open>The file of the specification's scenario:
  \<open>{"network": {"proxyPort": "not-a-number"}}\<close>.\<close>

definition bad_port_document :: jsval where
  "bad_port_document = Obj [(''network'', Obj [(''proxyPort'', Str ''not-a-number'')])]"


text \<open>The settings the managers read when nothing was changed: the values of
  \<open>DEFAULT_SETTINGS\<close>.\<close>

definition default_proxy_config :: proxy_config where
  "default_proxy_config =
     \<lparr>cfg_proxyPort = Num (Fin 8080), cfg_anonymousMode = False, cfg_circuitRotation = True,
      cfg_rotateInterval = ''10m'', cfg_connectionTimeout = Num (Fin 30),
      cfg_syncCheckInterval = Num (Fin 3000), cfg_syncTestDomain = ''tonnet-sync-check.ton''\<rparr>"

definition default_storage_config :: storage_config where
  "default_storage_config =
     \<lparr>cfg_storagePort = Num (Fin 5555), cfg_downloadPath = ''/data/storage'',
      cfg_pollingInterval = Num (Fin 2000), cfg_storageVerbosity = Num (Fin 2)\<rparr>"

text \<open>A proxy manager whose \<open>start()\<close> is suspended on child 1, and a storage manager
  whose \<open>start()\<close> on child 1 has had 29 pings fail and awaits the thirtieth.\<close>

definition proxy_starting :: ProxyManager where
  "proxy_starting = snd (pm_step (PmStart default_proxy_config 1) new_ProxyManager)"

definition storage_starting :: StorageManager where
  "storage_starting =
     snd (sm_run (SmStart default_storage_config 1 True
                   # replicate 29 (SmPingDone 1 False default_storage_config))
            (new_StorageManager ''/data/storage''))"


section \<open>Verification\<close>

subsection \<open>Port validation\<close>

lemma validatePort_in_range:
  "port_in_range p \<Longrightarrow> validatePort p d = p"
  by (auto simp: port_in_range_def validatePort_def num_gt_def split: jsval.splits jsnum.splits)

lemma validatePort_not_NaN:
  "p \<noteq> Num NaN \<Longrightarrow> validatePort p d = (if port_in_range p then p else Num d)"
  by (auto simp: port_in_range_def validatePort_def num_gt_def split: jsval.splits jsnum.splits)

text \<open>
  C5. The documented contract is that every input other than a number in
  \<open>[1024, 65535]\<close> is replaced by the default port. \<open>NaN\<close> has type number and both
  range comparisons are false for it, so it falls through both call sites unchanged.
\<close>

theorem validatePort_NaN_returned:
  "storage_safePort (Num NaN) = Num NaN \<and> proxy_safePort (Num NaN) = Num NaN
   \<and> \<not> port_in_range (Num NaN)"
  by (simp add: storage_safePort_def proxy_safePort_def validatePort_def num_gt_def
      port_in_range_def)


subsection \<open>Bag status\<close>

text \<open>
  C1. For every raw bag record the status computed by \<open>mapBagInfo\<close> is decided in
  priority order: \<open>paused\<close> when \<open>active\<close> is false, whatever \<open>completed\<close> is;
  otherwise \<open>seeding\<close> when \<open>completed\<close> is true and \<open>downloading\<close> when it is false.
\<close>

theorem mapBagInfo_status_priority:
  "status (mapBagInfo info) =
     (if \<not> active info then Paused else if completed info then Seeding else Downloading)"
  by (simp add: mapBagInfo_def mapBagInfo_status_def)


subsection \<open>Bag identifiers\<close>

lemma match_class_times_iff:
  "match_class_times cls n s = Some rest \<longleftrightarrow>
     (n \<le> length s \<and> list_all (in_class cls) (take n s) \<and> rest = drop n s)"
proof (induction cls n s rule: match_class_times.induct)
  case (1 cls s) show ?case by auto
next
  case (2 cls n) show ?case by simp
next
  case (3 cls n c s) then show ?case by auto
qed

lemma hex_codes:
  "(97 \<le> n \<and> n \<le> 102) \<or> (65 \<le> n \<and> n \<le> 70) \<or> (48 \<le> n \<and> n \<le> 57) \<longleftrightarrow>
   n \<in> {48,49,50,51,52,53,54,55,56,57,97,98,99,100,101,102,65,66,67,68,69,70::nat}"
  by (simp only: insert_iff empty_iff) arith

lemma char_of_hex_codes:
  "char_of ` {48,49,50,51,52,53,54,55,56,57,97,98,99,100,101,102,65,66,67,68,69,70::nat}
     = hex_digits"
  unfolding hex_digits_def by code_simp

lemma in_hex_class_iff: "in_class hex_class c \<longleftrightarrow> c \<in> hex_digits"
proof
  assume "in_class hex_class c"
  then have "(of_char c :: nat) \<in>
      {48,49,50,51,52,53,54,55,56,57,97,98,99,100,101,102,65,66,67,68,69,70}"
    unfolding hex_codes [symmetric] by (simp add: in_class_def hex_class_def)
  then have "char_of (of_char c :: nat) \<in> char_of `
      {48,49,50,51,52,53,54,55,56,57,97,98,99,100,101,102,65,66,67,68,69,70::nat}"
    by (rule imageI)
  then show "c \<in> hex_digits"
    unfolding char_of_hex_codes by simp
next
  assume "c \<in> hex_digits"
  then show "in_class hex_class c"
    by (auto simp: hex_digits_def in_class_def hex_class_def)
qed

lemma bagid_regex_test_iff:
  "bagid_regex_test s \<longleftrightarrow> length s = 64 \<and> set s \<subseteq> hex_digits"
proof -
  have "bagid_regex_test s \<longleftrightarrow> match_class_times hex_class 64 s = Some []"
    by (auto simp: bagid_regex_test_def split: option.splits)
  also have "\<dots> \<longleftrightarrow> 64 \<le> length s \<and> list_all (in_class hex_class) (take 64 s) \<and> drop 64 s = []"
    unfolding match_class_times_iff by auto
  also have "\<dots> \<longleftrightarrow> length s = 64 \<and> list_all (in_class hex_class) s"
    by auto
  also have "\<dots> \<longleftrightarrow> length s = 64 \<and> set s \<subseteq> hex_digits"
    by (auto simp: list_all_iff in_hex_class_iff)
  finally show ?thesis .
qed

text \<open>
  C6. \<open>isValidBagId\<close> is true exactly for a string of 64 characters, each one of
  \<open>[a-fA-F0-9]\<close>; every other length, every other character and every value that is
  not a string (\<open>null\<close> and \<open>undefined\<close> included) gives false. The function is total:
  it returns a boolean on every value.
\<close>

theorem isValidBagId_iff:
  "isValidBagId v \<longleftrightarrow> (\<exists>s. v = Str s \<and> length s = 64 \<and> set s \<subseteq> hex_digits)"
  by (cases v) (simp_all add: isValidBagId_def bagid_regex_test_iff)

theorem isValidBagId_witness:
  "isValidBagId (Str ''a1b2c3d4e5f6a1b2c3d4e5f6a1b2c3d4e5f6a1b2c3d4e5f6a1b2c3d4e5f6a1b2'')
   \<and> isValidBagId (Str ''A1B2C3D4E5F6A1B2C3D4E5F6A1B2C3D4E5F6A1B2C3D4E5F6A1B2C3D4E5F6A1B2'')
   \<and> \<not> isValidBagId (Str ''g1b2c3d4e5f6a1b2c3d4e5f6a1b2c3d4e5f6a1b2c3d4e5f6a1b2c3d4e5f6a1b2'')
   \<and> \<not> isValidBagId (Str ''a1b2c3d4e5f6a1b2c3d4e5f6a1b2c3d4'')
   \<and> \<not> isValidBagId Null \<and> \<not> isValidBagId Undefined"
  unfolding isValidBagId_iff by (simp add: hex_digits_def)

subsection \<open>Rate limiter\<close>

lemma check_accepts_same_instant:
  assumes "0 < windowMs rl" "calls rl = replicate j t" "int j < maxCalls rl"
  shows "check t rl = (True, rl\<lparr>calls := replicate (Suc j) t\<rparr>)"
  using assms by (simp add: check_def replicate_append_same)

lemma check_times_same_instant:
  "0 < windowMs rl \<Longrightarrow> calls rl = replicate j t \<Longrightarrow> int (j + k) \<le> maxCalls rl \<Longrightarrow>
   check_times k t rl = (replicate k True, rl\<lparr>calls := replicate (j + k) t\<rparr>)"
proof (induction k arbitrary: rl j)
  case 0
  then show ?case by simp
next
  case (Suc k)
  have step: "check t rl = (True, rl\<lparr>calls := replicate (Suc j) t\<rparr>)"
    using Suc.prems by (intro check_accepts_same_instant) auto
  have "check_times k t (rl\<lparr>calls := replicate (Suc j) t\<rparr>) =
          (replicate k True,
           rl\<lparr>calls := replicate (Suc j) t\<rparr>\<lparr>calls := replicate (Suc j + k) t\<rparr>)"
    using Suc.prems by (intro Suc.IH) auto
  with step show ?case by simp
qed

lemma check_rejects_when_full:
  assumes "0 < windowMs rl" "calls rl = replicate n t" "maxCalls rl = int n"
  shows "check t rl = (False, rl)"
  using assms by (simp add: check_def)

lemma check_accepts_after_window:
  assumes "calls rl = replicate n t" "t + windowMs rl < t'" "0 < maxCalls rl"
  shows "check t' rl = (True, rl\<lparr>calls := [t']\<rparr>)"
proof -
  have "filter (\<lambda>u. t' - u < windowMs rl) (replicate n t) = []"
    using assms(2) by (simp add: filter_empty_conv)
  then show ?thesis using assms by (simp add: check_def)
qed

text \<open>
  C7, as stated for every window \<open>w\<close>, fails for a window of zero milliseconds: the
  pruning keeps a time \<open>t\<close> only when \<open>now - t < w\<close>, so with \<open>w = 0\<close> a call recorded at
  the same instant is already pruned and the call after the limit is accepted.
\<close>

theorem RateLimiter_zero_window_counterexample:
  "check 0 (snd (check_times 1 0 (new_RateLimiter 1 0))) =
     (True, \<lparr>calls = [0], maxCalls = 1, windowMs = 0\<rparr>)"
  by (simp add: check_def new_RateLimiter_def)

text \<open>
  C7, amended. For every \<open>n \<ge> 1\<close> and every window \<open>w > 0\<close>, a fresh
  \<open>RateLimiter(n, w)\<close> accepts each of the first \<open>n\<close> calls of \<open>check\<close> made at one
  instant \<open>t\<close> and records \<open>t\<close> each time; the next call at \<open>t\<close> is rejected and records
  nothing; a call made more than \<open>w\<close> milliseconds after \<open>t\<close> is accepted again; and
  \<open>reset\<close> empties the history of any limiter.
\<close>

theorem RateLimiter_window:
  fixes n :: nat and w t :: int
  assumes "1 \<le> n" and "0 < w"
  defines "full \<equiv> \<lparr>calls = replicate n t, maxCalls = int n, windowMs = w\<rparr>"
  shows "check_times n t (new_RateLimiter (int n) w) = (replicate n True, full)
       \<and> check t full = (False, full)
       \<and> (\<forall>t'. t + w < t' \<longrightarrow> check t' full = (True, full\<lparr>calls := [t']\<rparr>))
       \<and> calls (reset rl) = []"
proof -
  have "check_times n t (new_RateLimiter (int n) w)
        = (replicate n True, (new_RateLimiter (int n) w)\<lparr>calls := replicate (0 + n) t\<rparr>)"
    using assms by (intro check_times_same_instant) (auto simp: new_RateLimiter_def)
  then have a: "check_times n t (new_RateLimiter (int n) w) = (replicate n True, full)"
    by (simp add: new_RateLimiter_def full_def)
  have b: "check t full = (False, full)"
    using assms by (intro check_rejects_when_full) (auto simp: full_def)
  have c: "check t' full = (True, full\<lparr>calls := [t']\<rparr>)" if "t + w < t'" for t'
    using that assms
    by (intro check_accepts_after_window[where n=n and t=t]) (auto simp: full_def)
  show ?thesis using a b c by (simp add: reset_def)
qed

theorem RateLimiter_window_witness:
  "check_times 3 0 (new_RateLimiter 3 1000)
     = ([True, True, True], \<lparr>calls = [0, 0, 0], maxCalls = 3, windowMs = 1000\<rparr>)
   \<and> check 0 \<lparr>calls = [0, 0, 0], maxCalls = 3, windowMs = 1000\<rparr>
     = (False, \<lparr>calls = [0, 0, 0], maxCalls = 3, windowMs = 1000\<rparr>)
   \<and> check 1001 \<lparr>calls = [0, 0, 0], maxCalls = 3, windowMs = 1000\<rparr>
     = (True, \<lparr>calls = [1001], maxCalls = 3, windowMs = 1000\<rparr>)
   \<and> calls (reset \<lparr>calls = [0, 0, 0], maxCalls = 3, windowMs = 1000\<rparr>) = []"
proof -
  have n: "(1::nat) \<le> 3" and w: "(0::int) < 1000" by simp_all
  note inst = RateLimiter_window [OF n w, of 0 "\<lparr>calls = [0, 0, 0], maxCalls = 3, windowMs = 1000\<rparr>"]
  have late: "(0::int) + 1000 < 1001" by simp
  from inst have "check 1001 \<lparr>calls = replicate 3 0, maxCalls = int 3, windowMs = 1000\<rparr>
     = (True, \<lparr>calls = replicate 3 0, maxCalls = int 3, windowMs = 1000\<rparr>\<lparr>calls := [1001]\<rparr>)"
    using late by blast
  with inst show ?thesis by (simp add: numeral_3_eq_3)
qed

subsection \<open>Navigation URLs\<close>

lemma dangerous_not_allowed: "p \<in> set DANGEROUS_SCHEMES \<Longrightarrow> p \<notin> set ALLOWED_SCHEMES"
  by (auto simp: DANGEROUS_SCHEMES_def ALLOWED_SCHEMES_def)

text \<open>Whatever the parser returns, the allow-list test comes first, so the branch that
  names a dangerous scheme is never taken.\<close>

lemma never_dangerous_message:
  "error (isValidNavigationUrl_with parse url) \<noteq> Some (''Dangerous scheme: '' @ p)"
  by (auto simp: isValidNavigationUrl_with_def Let_def DANGEROUS_SCHEMES_def
      ALLOWED_SCHEMES_def split: option.splits)

text \<open>\<open>javascript:alert(1)\<close> holds no \<open>://\<close>, so the parser is given
  \<open>http://javascript:alert(1)\<close>, whatever parser it is.\<close>

lemma javascript_url_any_parser:
  "isValidNavigationUrl_with parse ''javascript:alert(1)'' =
     (case parse ''http://javascript:alert(1)'' of
        None \<Rightarrow> \<lparr>valid = False, error = Some ''Invalid URL format''\<rparr>
      | Some p \<Rightarrow> if p \<in> set ALLOWED_SCHEMES then \<lparr>valid = True, error = None\<rparr>
                  else \<lparr>valid = False, error = Some (''Blocked scheme: '' @ p)\<rparr>)"
  by (auto simp: isValidNavigationUrl_with_def Let_def startsWith_def DANGEROUS_SCHEMES_def
      ALLOWED_SCHEMES_def split: option.splits)

lemma file_url_blocked:
  "isValidNavigationUrl ''file:///etc/passwd'' =
     \<lparr>valid = False, error = Some ''Blocked scheme: file:''\<rparr>"
  by code_simp

text \<open>
  C4. A URL with a scheme of the deny-list is to be rejected with an error that names
  the scheme. \<open>javascript:alert(1)\<close> is rejected, but as a URL that does not parse: the
  text handed to the parser is \<open>http://javascript:alert(1)\<close>, whose port is not a
  number, and the error is the generic \<open>Invalid URL format\<close>, which does not mention
  \<open>javascript:\<close>.
\<close>

theorem isValidNavigationUrl_javascript_generic_error:
  "isValidNavigationUrl ''javascript:alert(1)'' =
     \<lparr>valid = False, error = Some ''Invalid URL format''\<rparr>
   \<and> \<not> str_includes ''Invalid URL format'' ''javascript:''"
  by code_simp

subsection \<open>Settings validation and loading\<close>

lemma network_bad:
  assumes "(c, f, k) \<in> set checked_fields" "c = ''network''"
    "get_prop props f \<noteq> Undefined" "\<not> has_kind k (get_prop props f)"
  shows "network_fields_bad (Obj props)"
  using assms by (auto simp: checked_fields_def network_fields_bad_def present_not_typed_def)

lemma privacy_bad:
  assumes "(c, f, k) \<in> set checked_fields" "c = ''privacy''"
    "get_prop props f \<noteq> Undefined" "\<not> has_kind k (get_prop props f)"
  shows "privacy_fields_bad (Obj props)"
  using assms by (auto simp: checked_fields_def privacy_fields_bad_def present_not_typed_def)

lemma theme_bad_not_string: "typeof v \<noteq> TString \<Longrightarrow> theme_bad v"
  by (cases v) (auto simp: theme_bad_def)

lemma appearance_bad:
  assumes "(c, f, k) \<in> set checked_fields" "c = ''appearance''"
    "get_prop props f \<noteq> Undefined" "\<not> has_kind k (get_prop props f)"
  shows "appearance_fields_bad (Obj props)"
  using assms
  by (auto simp: checked_fields_def appearance_fields_bad_def present_not_typed_def
      theme_bad_not_string)

lemma checked_category:
  "(c, f, k) \<in> set checked_fields \<Longrightarrow> c = ''network'' \<or> c = ''privacy'' \<or> c = ''appearance''"
  by (auto simp: checked_fields_def)

lemma wrong_typed_rejected:
  assumes "has_wrong_typed_field doc"
  shows "\<not> isValidSettingsObject doc"
proof -
  from assms obtain c f k where cf: "(c, f, k) \<in> set checked_fields"
    and w: "field_wrong_typed doc (c, f, k)"
    by (auto simp: has_wrong_typed_field_def list_ex_iff)
  from w obtain props where p: "read_prop doc c = Obj props"
    "get_prop props f \<noteq> Undefined" "\<not> has_kind k (get_prop props f)"
    by (auto simp: field_wrong_typed_def split: jsval.splits)
  from checked_category[OF cf] show ?thesis
  proof (elim disjE)
    assume c: "c = ''network''"
    have "network_fields_bad (Obj props)" using network_bad[OF cf c p(2,3)] .
    with p(1) c show ?thesis by (simp add: isValidSettingsObject_def)
  next
    assume c: "c = ''privacy''"
    have "privacy_fields_bad (Obj props)" using privacy_bad[OF cf c p(2,3)] .
    with p(1) c show ?thesis by (simp add: isValidSettingsObject_def)
  next
    assume c: "c = ''appearance''"
    have "appearance_fields_bad (Obj props)" using appearance_bad[OF cf c p(2,3)] .
    with p(1) c show ?thesis by (simp add: isValidSettingsObject_def)
  qed
qed

lemma loadSettings_invalid_defaults:
  assumes "settingsCache w = None" "settings_file w = Some (Document doc)"
    "\<not> isValidSettingsObject doc"
  shows "\<exists>w'. loadSettings p w = Inr (getDefaultSettings p, w')"
  using assms by (auto simp: loadSettings_def load_existing_def Let_def split: sum.splits)

text \<open>
  C2. Whenever the settings file holds a document in which a checked field of a known
  category is present with the wrong type, validation rejects the document, and the
  first \<open>load()\<close> returns the compiled-in defaults, whole: every category is the default
  one, not only the category of the offending field.
\<close>

theorem wrong_typed_field_loads_defaults:
  assumes "settingsCache w = None"
    and "settings_file w = Some (Document doc)"
    and "has_wrong_typed_field doc"
  shows "\<not> isValidSettingsObject doc
       \<and> (\<exists>w'. loadSettings p w = Inr (getDefaultSettings p, w'))"
  using assms wrong_typed_rejected loadSettings_invalid_defaults by blast



lemma bad_port_wrong: "has_wrong_typed_field bad_port_document"
  by (simp add: has_wrong_typed_field_def bad_port_document_def checked_fields_def
      field_wrong_typed_def get_prop_def)

text \<open>The specification's scenario, a file holding
  \<open>{"network": {"proxyPort": "not-a-number"}}\<close>, as an instance.\<close>

theorem wrong_typed_field_loads_defaults_witness:
  "has_wrong_typed_field bad_port_document
   \<and> \<not> isValidSettingsObject bad_port_document
   \<and> (\<exists>w'. loadSettings ''/data/storage'' (fresh_world (Some (Document bad_port_document)))
             = Inr (getDefaultSettings ''/data/storage'', w'))"
proof -
  have c: "settingsCache (fresh_world (Some (Document bad_port_document))) = None"
    and f: "settings_file (fresh_world (Some (Document bad_port_document)))
              = Some (Document bad_port_document)"
    by (simp_all add: fresh_world_def)
  have b: "has_wrong_typed_field bad_port_document"
    by (simp add: has_wrong_typed_field_def bad_port_document_def checked_fields_def
      field_wrong_typed_def get_prop_def)
  from wrong_typed_field_loads_defaults [OF c f b, of "''/data/storage''"] b
  show ?thesis by simp
qed

lemma saveSettings_succeeds:
  assumes "dir_exists w \<or> mkdir_ok w" "write_ok w" "rename_ok w"
  shows "saveSettings s w =
     Inr (w\<lparr>dir_exists := True, settings_file := Some (json_text (settings_object s)),
           temp_file := None, settingsCache := Some s\<rparr>)"
  using assms by (auto simp: saveSettings_def Let_def)

text \<open>
  C3, amended. On the first \<open>load()\<close>, a settings file that exists but does not parse
  makes \<open>load()\<close> return the defaults and cache them while the disk stays as it was. A
  file that parses but fails validation also makes \<open>load()\<close> return the defaults, and
  these are saved: whenever the directory, the write and the rename succeed, the file is
  replaced by the defaults, exactly as on the path where the file is absent.
\<close>

theorem load_fallback_persistence:
  fixes w :: world and p :: string
  defines "d \<equiv> getDefaultSettings p"
  assumes "settingsCache w = None"
  shows
    "(settings_file w = Some Unparseable \<longrightarrow>
        loadSettings p w = Inr (d, w\<lparr>settingsCache := Some d\<rparr>))
   \<and> ((\<exists>doc. settings_file w = Some (Document doc) \<and> \<not> isValidSettingsObject doc)
        \<and> read_ok w \<and> (dir_exists w \<or> mkdir_ok w) \<and> write_ok w \<and> rename_ok w \<longrightarrow>
        loadSettings p w =
          Inr (d, w\<lparr>dir_exists := True, settings_file := Some (json_text (settings_object d)),
                    temp_file := None, settingsCache := Some d\<rparr>))
   \<and> (settings_file w = None \<and> (dir_exists w \<or> mkdir_ok w) \<and> write_ok w \<and> rename_ok w \<longrightarrow>
        loadSettings p w =
          Inr (d, w\<lparr>dir_exists := True, settings_file := Some (json_text (settings_object d)),
                    temp_file := None, settingsCache := Some d\<rparr>))"
proof (intro conjI impI)
  assume "settings_file w = Some Unparseable"
  with assms show "loadSettings p w = Inr (d, w\<lparr>settingsCache := Some d\<rparr>)"
    by (simp add: loadSettings_def load_existing_def Let_def)
next
  assume a: "(\<exists>doc. settings_file w = Some (Document doc) \<and> \<not> isValidSettingsObject doc)
        \<and> read_ok w \<and> (dir_exists w \<or> mkdir_ok w) \<and> write_ok w \<and> rename_ok w"
  then obtain doc where doc: "settings_file w = Some (Document doc)" "\<not> isValidSettingsObject doc"
    by blast
  have "saveSettings d (w\<lparr>settingsCache := Some d\<rparr>) =
     Inr (w\<lparr>settingsCache := Some d\<rparr>\<lparr>dir_exists := True, settings_file := Some (json_text (settings_object d)),
           temp_file := None, settingsCache := Some d\<rparr>)"
    using a by (intro saveSettings_succeeds) auto
  with doc a assms show "loadSettings p w =
          Inr (d, w\<lparr>dir_exists := True, settings_file := Some (json_text (settings_object d)),
                    temp_file := None, settingsCache := Some d\<rparr>)"
    by (simp add: loadSettings_def load_existing_def Let_def)
next
  assume a: "settings_file w = None \<and> (dir_exists w \<or> mkdir_ok w) \<and> write_ok w \<and> rename_ok w"
  have "saveSettings d (w\<lparr>settingsCache := Some d\<rparr>) =
     Inr (w\<lparr>settingsCache := Some d\<rparr>\<lparr>dir_exists := True, settings_file := Some (json_text (settings_object d)),
           temp_file := None, settingsCache := Some d\<rparr>)"
    using a by (intro saveSettings_succeeds) auto
  with a assms show "loadSettings p w =
          Inr (d, w\<lparr>dir_exists := True, settings_file := Some (json_text (settings_object d)),
                    temp_file := None, settingsCache := Some d\<rparr>)"
    by (simp add: loadSettings_def Let_def)
qed

lemma bad_port_invalid: "\<not> isValidSettingsObject bad_port_document"
  by (simp add: isValidSettingsObject_def bad_port_document_def get_prop_def categories_def
        network_fields_bad_def present_not_typed_def)

text \<open>
  C3 as stated fails on the validation path: with the scenario's invalid file on a
  writable disk, the file holds the defaults after \<open>load()\<close>, not its former content.
\<close>

theorem load_invalid_file_overwritten_counterexample:
  "settings_file (snd (projr (loadSettings ''/data/storage''
        (fresh_world (Some (Document bad_port_document))))))
     = Some (json_text (settings_object (getDefaultSettings ''/data/storage'')))
   \<and> Some (json_text (settings_object (getDefaultSettings ''/data/storage'')))
       \<noteq> settings_file (fresh_world (Some (Document bad_port_document)))"
proof
  show "settings_file (snd (projr (loadSettings ''/data/storage''
        (fresh_world (Some (Document bad_port_document))))))
     = Some (json_text (settings_object (getDefaultSettings ''/data/storage'')))"
    by (simp add: loadSettings_def load_existing_def bad_port_invalid saveSettings_def Let_def
        fresh_world_def)
  show "Some (json_text (settings_object (getDefaultSettings ''/data/storage'')))
       \<noteq> settings_file (fresh_world (Some (Document bad_port_document)))"
    by (simp add: fresh_world_def json_text_def settings_object_def bad_port_document_def)
qed

theorem load_fallback_persistence_witness:
  "loadSettings ''/data/storage'' (fresh_world (Some Unparseable))
     = Inr (getDefaultSettings ''/data/storage'',
            (fresh_world (Some Unparseable))
              \<lparr>settingsCache := Some (getDefaultSettings ''/data/storage'')\<rparr>)
   \<and> loadSettings ''/data/storage'' (fresh_world (Some (Document bad_port_document)))
     = Inr (getDefaultSettings ''/data/storage'',
            (fresh_world (Some (Document bad_port_document)))
              \<lparr>dir_exists := True,
                settings_file :=
                  Some (json_text (settings_object (getDefaultSettings ''/data/storage''))),
                temp_file := None,
                settingsCache := Some (getDefaultSettings ''/data/storage'')\<rparr>)
   \<and> loadSettings ''/data/storage'' (fresh_world None)
     = Inr (getDefaultSettings ''/data/storage'',
            (fresh_world None)
              \<lparr>dir_exists := True,
                settings_file :=
                  Some (json_text (settings_object (getDefaultSettings ''/data/storage''))),
                temp_file := None,
                settingsCache := Some (getDefaultSettings ''/data/storage'')\<rparr>)"
proof -
  have c: "settingsCache (fresh_world x) = None" for x
    by (simp add: fresh_world_def)
  have 1: "settings_file (fresh_world (Some Unparseable)) = Some Unparseable"
    by (simp add: fresh_world_def)
  have 2: "(\<exists>doc. settings_file (fresh_world (Some (Document bad_port_document)))
                    = Some (Document doc) \<and> \<not> isValidSettingsObject doc)
        \<and> read_ok (fresh_world (Some (Document bad_port_document)))
        \<and> (dir_exists (fresh_world (Some (Document bad_port_document)))
            \<or> mkdir_ok (fresh_world (Some (Document bad_port_document))))
        \<and> write_ok (fresh_world (Some (Document bad_port_document)))
        \<and> rename_ok (fresh_world (Some (Document bad_port_document)))"
    using bad_port_invalid by (simp add: fresh_world_def)
  have 3: "settings_file (fresh_world None) = None
        \<and> (dir_exists (fresh_world None) \<or> mkdir_ok (fresh_world None))
        \<and> write_ok (fresh_world None) \<and> rename_ok (fresh_world None)"
    by (simp add: fresh_world_def)
  from load_fallback_persistence [OF c, of "Some Unparseable" "''/data/storage''"] 1
       load_fallback_persistence [OF c, of "Some (Document bad_port_document)" "''/data/storage''"] 2
       load_fallback_persistence [OF c, of None "''/data/storage''"] 3
  show ?thesis by blast
qed

subsection \<open>Process managers\<close>


lemma pm_start_while_held:
  "pm_process m \<noteq> None \<Longrightarrow>
   pm_step (PmStart cfg h) m = ([PmStartRejected (Error ''Proxy already running'')], m)"
  by (simp add: pm_start_def)

lemma pm_ready_timeout_pending:
  "h \<in> set (pm_waits m) \<Longrightarrow>
   pm_step (PmReadyTimeout h) m =
     ([PmStartRejected (Error ''Proxy failed to start within timeout'')],
      m\<lparr>pm_waits := removeAll h (pm_waits m)\<rparr>)"
  by (simp add: pm_ready_timeout_def)

lemma pm_step_keeps_process:
  assumes "pm_process m = Some p" "e \<noteq> PmStop" "\<not> is_PmExit e"
  shows "pm_process (snd (pm_step e m)) = Some p"
  using assms
  by (cases e)
     (auto simp: pm_start_def pm_ready_timeout_def pm_stdout_def pm_ready_def pm_setStatus_def
       pm_loadSettings_def pm_stderr_def pm_spawn_error_def pm_sync_tick_def Let_def
       split: prod.splits if_splits)

lemma pm_run_while_held:
  assumes "pm_process m = Some p" "PmStop \<notin> set evs" "\<forall>e\<in>set evs. \<not> is_PmExit e"
  shows "pm_process (snd (pm_run evs m)) = Some p
       \<and> list_all2 (\<lambda>e obs. is_PmStart e \<longrightarrow> obs = [PmStartRejected (Error ''Proxy already running'')])
            evs (fst (pm_run evs m))"
  using assms
proof (induction evs arbitrary: m)
  case Nil
  then show ?case by simp
next
  case (Cons e evs)
  obtain obs m' where st: "pm_step e m = (obs, m')" by (cases "pm_step e m")
  have keep: "pm_process m' = Some p"
    using pm_step_keeps_process[of m p e] Cons.prems st by auto
  have ih: "pm_process (snd (pm_run evs m')) = Some p
       \<and> list_all2 (\<lambda>e obs. is_PmStart e \<longrightarrow> obs = [PmStartRejected (Error ''Proxy already running'')])
            evs (fst (pm_run evs m'))"
    using Cons.IH[OF keep] Cons.prems by auto
  have hd: "is_PmStart e \<longrightarrow> obs = [PmStartRejected (Error ''Proxy already running'')]"
  proof
    assume "is_PmStart e"
    then obtain cfg h where "e = PmStart cfg h" by (cases e) auto
    with st Cons.prems(1) show "obs = [PmStartRejected (Error ''Proxy already running'')]"
      by (simp add: pm_start_def)
  qed
  from st ih hd show ?case by (simp add: case_prod_beta)
qed

lemma pm_step_stays_starting:
  assumes "pm_process m = Some p" "p \<notin> set (pm_waits m)" "pm_syncCheckInterval m = None"
    "pm_status m = Starting" "e \<noteq> PmStop" "\<not> is_PmExit e"
  shows "p \<notin> set (pm_waits (snd (pm_step e m))) \<and> pm_syncCheckInterval (snd (pm_step e m)) = None
       \<and> pm_status (snd (pm_step e m)) = Starting"
  using assms
  by (cases e)
     (auto simp: pm_start_def pm_ready_timeout_def pm_stdout_def pm_ready_def pm_setStatus_def
       pm_loadSettings_def pm_stderr_def pm_spawn_error_def pm_sync_tick_def Let_def
       split: prod.splits if_splits)

lemma pm_run_stays_starting:
  assumes "pm_process m = Some p" "p \<notin> set (pm_waits m)" "pm_syncCheckInterval m = None"
    "pm_status m = Starting" "PmStop \<notin> set evs" "\<forall>e\<in>set evs. \<not> is_PmExit e"
  shows "pm_status (snd (pm_run evs m)) = Starting"
  using assms
proof (induction evs arbitrary: m)
  case Nil
  then show ?case by simp
next
  case (Cons e evs)
  obtain obs m' where st: "pm_step e m = (obs, m')" by (cases "pm_step e m")
  have keep: "pm_process m' = Some p"
    using pm_step_keeps_process[of m p e] Cons.prems st by auto
  have inv: "p \<notin> set (pm_waits m') \<and> pm_syncCheckInterval m' = None \<and> pm_status m' = Starting"
    using pm_step_stays_starting[of m p e] Cons.prems st by auto
  have "pm_status (snd (pm_run evs m')) = Starting"
    using Cons.IH[OF keep] inv Cons.prems by auto
  with st show ?case by (simp add: case_prod_beta)
qed

lemma sm_start_while_held:
  "sm_process m \<noteq> None \<Longrightarrow>
   sm_step (SmStart cfg h dirs_ok) m =
     ([SmStartRejected (Error ''Storage daemon already running'')], m)"
  by (simp add: sm_start_def)

lemma sm_budget_exhausted:
  "map_of (sm_waits m) h = Some i \<Longrightarrow> maxAttempts \<le> Suc i \<Longrightarrow>
   sm_step (SmPingDone h False cfg) m =
     ([SmStartRejected (Error ''Storage daemon API did not become ready'')],
      m\<lparr>sm_waits := remove_wait h (sm_waits m)\<rparr>)"
  by (simp add: sm_ping_done_def)

lemma sm_step_keeps_process:
  assumes "sm_process m = Some p" "e \<noteq> SmStop" "\<not> is_SmExit e"
  shows "sm_process (snd (sm_step e m)) = Some p"
  using assms
  by (cases e)
     (auto simp: sm_start_def sm_ping_done_def sm_started_def sm_loadSettings_def
       sm_stdout_def sm_stderr_def sm_spawn_error_def sm_poll_tick_def Let_def
       split: option.splits sum.splits if_splits)

lemma sm_run_while_held:
  assumes "sm_process m = Some p" "SmStop \<notin> set evs" "\<forall>e\<in>set evs. \<not> is_SmExit e"
  shows "sm_process (snd (sm_run evs m)) = Some p
       \<and> list_all2 (\<lambda>e obs. is_SmStart e \<longrightarrow>
                        obs = [SmStartRejected (Error ''Storage daemon already running'')])
            evs (fst (sm_run evs m))"
  using assms
proof (induction evs arbitrary: m)
  case Nil
  then show ?case by simp
next
  case (Cons e evs)
  obtain obs m' where st: "sm_step e m = (obs, m')" by (cases "sm_step e m")
  have keep: "sm_process m' = Some p"
    using sm_step_keeps_process[of m p e] Cons.prems st by auto
  have ih: "sm_process (snd (sm_run evs m')) = Some p
       \<and> list_all2 (\<lambda>e obs. is_SmStart e \<longrightarrow>
                        obs = [SmStartRejected (Error ''Storage daemon already running'')])
            evs (fst (sm_run evs m'))"
    using Cons.IH[OF keep] Cons.prems by auto
  have hd: "is_SmStart e \<longrightarrow> obs = [SmStartRejected (Error ''Storage daemon already running'')]"
  proof
    assume "is_SmStart e"
    then obtain cfg h d where "e = SmStart cfg h d" by (cases e) auto
    with st Cons.prems(1) show "obs = [SmStartRejected (Error ''Storage daemon already running'')]"
      by (simp add: sm_start_def)
  qed
  from st ih hd show ?case by (simp add: case_prod_beta)
qed

lemma sm_step_stays_not_running:
  assumes "sm_process m = Some p" "sm_waits m = []" "\<not> sm_isRunning m"
    "e \<noteq> SmStop" "\<not> is_SmExit e"
  shows "sm_waits (snd (sm_step e m)) = [] \<and> \<not> sm_isRunning (snd (sm_step e m))"
  using assms
  by (cases e)
     (auto simp: sm_start_def sm_ping_done_def sm_stdout_def sm_stderr_def sm_spawn_error_def
       sm_poll_tick_def Let_def split: sum.splits if_splits)

lemma sm_run_stays_not_running:
  assumes "sm_process m = Some p" "sm_waits m = []" "\<not> sm_isRunning m"
    "SmStop \<notin> set evs" "\<forall>e\<in>set evs. \<not> is_SmExit e"
  shows "\<not> sm_isRunning (snd (sm_run evs m))"
  using assms
proof (induction evs arbitrary: m)
  case Nil
  then show ?case by simp
next
  case (Cons e evs)
  obtain obs m' where st: "sm_step e m = (obs, m')" by (cases "sm_step e m")
  have keep: "sm_process m' = Some p"
    using sm_step_keeps_process[of m p e] Cons.prems st by auto
  have inv: "sm_waits m' = [] \<and> \<not> sm_isRunning m'"
    using sm_step_stays_not_running[of m p e] Cons.prems st by auto
  have "\<not> sm_isRunning (snd (sm_run evs m'))"
    using Cons.IH[OF keep] inv Cons.prems by auto
  with st show ?case by (simp add: case_prod_beta)
qed

text \<open>
  C9, amended. For both managers, when a call of \<open>start()\<close> is rejected because the
  readiness wait timed out (proxy) or used up its attempts (storage) while the child is
  still held, the rejection leaves the handle in place, and the status (the running
  flag) as it was. After it, through any history in which \<open>stop()\<close> is not called and the
  child does not exit, the handle stays, every call of \<open>start()\<close> is rejected with the
  already-running error, and a manager that was \<open>starting\<close> (not running) with no other
  start in flight stays so; \<open>stop()\<close> then clears the handle.
\<close>

theorem start_rejected_until_stop_or_exit:
  "(pm_process pm = Some p \<and> h \<in> set (pm_waits pm)
      \<and> PmStop \<notin> set pevs \<and> (\<forall>e\<in>set pevs. \<not> is_PmExit e) \<longrightarrow>
      (case pm_step (PmReadyTimeout h) pm of (obs, pm') \<Rightarrow>
         obs = [PmStartRejected (Error ''Proxy failed to start within timeout'')]
         \<and> pm_process pm' = Some p \<and> pm_status pm' = pm_status pm
         \<and> pm_process (snd (pm_run pevs pm')) = Some p
         \<and> list_all2 (\<lambda>e obs. is_PmStart e \<longrightarrow>
                           obs = [PmStartRejected (Error ''Proxy already running'')])
              pevs (fst (pm_run pevs pm'))
         \<and> pm_process (snd (pm_step PmStop (snd (pm_run pevs pm')))) = None
         \<and> (pm_status pm = Starting \<and> pm_syncCheckInterval pm = None
              \<and> p \<notin> set (pm_waits pm') \<longrightarrow>
            pm_status (snd (pm_run pevs pm')) = Starting)))
   \<and> (sm_process sm = Some q \<and> map_of (sm_waits sm) k = Some i \<and> maxAttempts \<le> Suc i
      \<and> SmStop \<notin> set sevs \<and> (\<forall>e\<in>set sevs. \<not> is_SmExit e) \<longrightarrow>
      (case sm_step (SmPingDone k False cfg) sm of (obs, sm') \<Rightarrow>
         obs = [SmStartRejected (Error ''Storage daemon API did not become ready'')]
         \<and> sm_process sm' = Some q \<and> sm_isRunning sm' = sm_isRunning sm
         \<and> sm_process (snd (sm_run sevs sm')) = Some q
         \<and> list_all2 (\<lambda>e obs. is_SmStart e \<longrightarrow>
                           obs = [SmStartRejected (Error ''Storage daemon already running'')])
              sevs (fst (sm_run sevs sm'))
         \<and> sm_process (snd (sm_step SmStop (snd (sm_run sevs sm')))) = None
         \<and> (\<not> sm_isRunning sm \<and> sm_waits sm' = [] \<longrightarrow>
            \<not> sm_isRunning (snd (sm_run sevs sm')))))"
proof (intro conjI impI)
  assume a: "pm_process pm = Some p \<and> h \<in> set (pm_waits pm)
      \<and> PmStop \<notin> set pevs \<and> (\<forall>e\<in>set pevs. \<not> is_PmExit e)"
  let ?pm' = "pm\<lparr>pm_waits := removeAll h (pm_waits pm)\<rparr>"
  have st: "pm_step (PmReadyTimeout h) pm =
     ([PmStartRejected (Error ''Proxy failed to start within timeout'')], ?pm')"
    using a by (intro pm_ready_timeout_pending) simp
  have held: "pm_process ?pm' = Some p" using a by simp
  note run = pm_run_while_held[OF held, of pevs]
  have "pm_process (snd (pm_step PmStop (snd (pm_run pevs ?pm')))) = None"
    by (simp add: pm_stop_def pm_setStatus_def Let_def split: prod.splits)
  moreover note st held run a
  moreover have "pm_status ?pm' = Starting \<and> pm_syncCheckInterval ?pm' = None
              \<and> p \<notin> set (pm_waits ?pm') \<longrightarrow> pm_status (snd (pm_run pevs ?pm')) = Starting"
    using pm_run_stays_starting[OF held, of pevs] a by blast
  ultimately show "case pm_step (PmReadyTimeout h) pm of (obs, pm') \<Rightarrow>
         obs = [PmStartRejected (Error ''Proxy failed to start within timeout'')]
         \<and> pm_process pm' = Some p \<and> pm_status pm' = pm_status pm
         \<and> pm_process (snd (pm_run pevs pm')) = Some p
         \<and> list_all2 (\<lambda>e obs. is_PmStart e \<longrightarrow>
                           obs = [PmStartRejected (Error ''Proxy already running'')])
              pevs (fst (pm_run pevs pm'))
         \<and> pm_process (snd (pm_step PmStop (snd (pm_run pevs pm')))) = None
         \<and> (pm_status pm = Starting \<and> pm_syncCheckInterval pm = None
              \<and> p \<notin> set (pm_waits pm') \<longrightarrow>
            pm_status (snd (pm_run pevs pm')) = Starting)"
    by simp
next
  assume a: "sm_process sm = Some q \<and> map_of (sm_waits sm) k = Some i \<and> maxAttempts \<le> Suc i
      \<and> SmStop \<notin> set sevs \<and> (\<forall>e\<in>set sevs. \<not> is_SmExit e)"
  let ?sm' = "sm\<lparr>sm_waits := remove_wait k (sm_waits sm)\<rparr>"
  have st: "sm_step (SmPingDone k False cfg) sm =
     ([SmStartRejected (Error ''Storage daemon API did not become ready'')], ?sm')"
    using a by (intro sm_budget_exhausted[where i=i]) simp_all
  have held: "sm_process ?sm' = Some q" using a by simp
  note run = sm_run_while_held[OF held, of sevs]
  have "sm_process (snd (sm_step SmStop (snd (sm_run sevs ?sm')))) = None"
    by (simp add: sm_stop_def sm_stopPolling_def Let_def)
  moreover note st held run a
  moreover have "\<not> sm_isRunning ?sm' \<and> sm_waits ?sm' = [] \<longrightarrow>
            \<not> sm_isRunning (snd (sm_run sevs ?sm'))"
    using sm_run_stays_not_running[OF held, of sevs] a by blast
  ultimately show "case sm_step (SmPingDone k False cfg) sm of (obs, sm') \<Rightarrow>
         obs = [SmStartRejected (Error ''Storage daemon API did not become ready'')]
         \<and> sm_process sm' = Some q \<and> sm_isRunning sm' = sm_isRunning sm
         \<and> sm_process (snd (sm_run sevs sm')) = Some q
         \<and> list_all2 (\<lambda>e obs. is_SmStart e \<longrightarrow>
                           obs = [SmStartRejected (Error ''Storage daemon already running'')])
              sevs (fst (sm_run sevs sm'))
         \<and> sm_process (snd (sm_step SmStop (snd (sm_run sevs sm')))) = None
         \<and> (\<not> sm_isRunning sm \<and> sm_waits sm' = [] \<longrightarrow>
            \<not> sm_isRunning (snd (sm_run sevs sm')))"
    by simp
qed

lemma proxy_starting_eq:
  "proxy_starting =
     \<lparr>pm_process = Some 1, pm_port = Num (Fin 8080), pm_status = Starting,
      pm_syncCheckInterval = None, pm_anonymousMode = False, pm_circuitRotation = True,
      pm_rotateInterval = ''10m'', pm_circuitRelays = (None, None, None), pm_waits = [1]\<rparr>"
  by (simp add: proxy_starting_def pm_start_def new_ProxyManager_def default_proxy_config_def
      pm_loadSettings_def pm_setStatus_def validatePort_def num_gt_def Let_def)

lemma sm_ping_fail_step:
  "map_of (sm_waits m) h = Some i \<Longrightarrow> Suc i < maxAttempts \<Longrightarrow> sm_client m \<noteq> None \<Longrightarrow>
   sm_step (SmPingDone h False cfg) m =
     ([], m\<lparr>sm_waits := map (\<lambda>w. if fst w = h then (h, Suc i) else w) (sm_waits m)\<rparr>)"
  by (simp add: sm_ping_done_def)

lemma sm_ping_fail_run:
  "sm_waits m = [(h, i)] \<Longrightarrow> i + n < maxAttempts \<Longrightarrow> sm_client m \<noteq> None \<Longrightarrow>
   snd (sm_run (replicate n (SmPingDone h False cfg)) m) = m\<lparr>sm_waits := [(h, i + n)]\<rparr>"
proof (induction n arbitrary: m i)
  case 0
  then show ?case by simp
next
  case (Suc n)
  have st: "sm_step (SmPingDone h False cfg) m = ([], m\<lparr>sm_waits := [(h, Suc i)]\<rparr>)"
    using Suc.prems by (simp add: sm_ping_done_def)
  have "snd (sm_run (replicate n (SmPingDone h False cfg)) (m\<lparr>sm_waits := [(h, Suc i)]\<rparr>))
        = m\<lparr>sm_waits := [(h, Suc i)]\<rparr>\<lparr>sm_waits := [(h, Suc i + n)]\<rparr>"
    using Suc.prems by (intro Suc.IH) auto
  with st show ?case by (simp add: case_prod_beta)
qed

lemma storage_starting_eq:
  "storage_starting =
     \<lparr>sm_process = Some 1, sm_port = Num (Fin 5555), sm_storagePath = ''/data/storage'',
      sm_isRunning = False, sm_client = Some (Num (Fin 5555)), sm_pollInterval = None,
      sm_waits = [(1, 29)]\<rparr>"
proof -
  have st: "sm_step (SmStart default_storage_config 1 True) (new_StorageManager ''/data/storage'')
      = ([SmSpawned 1 (Num (Fin 5555)) (Num (Fin 2))],
         \<lparr>sm_process = Some 1, sm_port = Num (Fin 5555), sm_storagePath = ''/data/storage'',
          sm_isRunning = False, sm_client = Some (Num (Fin 5555)), sm_pollInterval = None,
          sm_waits = [(1, 0)]\<rparr>)"
    by (simp add: sm_start_def new_StorageManager_def default_storage_config_def
        sm_loadSettings_def validatePort_def validateVerbosity_def num_gt_def Let_def)
  have "snd (sm_run (replicate 29 (SmPingDone 1 False default_storage_config))
          \<lparr>sm_process = Some 1, sm_port = Num (Fin 5555), sm_storagePath = ''/data/storage'',
          sm_isRunning = False, sm_client = Some (Num (Fin 5555)), sm_pollInterval = None,
          sm_waits = [(1, 0)]\<rparr>)
        = \<lparr>sm_process = Some 1, sm_port = Num (Fin 5555), sm_storagePath = ''/data/storage'',
          sm_isRunning = False, sm_client = Some (Num (Fin 5555)), sm_pollInterval = None,
          sm_waits = [(1, 0)]\<rparr>\<lparr>sm_waits := [(1, 0 + 29)]\<rparr>"
    by (intro sm_ping_fail_run) (simp_all add: maxAttempts_def)
  with st show ?thesis
    by (simp add: storage_starting_def case_prod_beta)
qed

text \<open>Both managers with default settings: the first \<open>start()\<close> fails its readiness
  wait, and later calls of \<open>start()\<close> are rejected, also after a late readiness marker
  or a late successful ping.\<close>

theorem start_rejected_until_stop_or_exit_witness:
  "fst (pm_step (PmReadyTimeout 1) proxy_starting)
     = [PmStartRejected (Error ''Proxy failed to start within timeout'')]
   \<and> pm_process (snd (pm_step (PmReadyTimeout 1) proxy_starting)) = Some 1
   \<and> list_all2 (\<lambda>e obs. is_PmStart e \<longrightarrow>
                     obs = [PmStartRejected (Error ''Proxy already running'')])
        [PmStart default_proxy_config 2, PmStdout ''Proxy listening'' default_proxy_config,
         PmSyncTick (ProbeResponse 200), PmStart default_proxy_config 3]
        (fst (pm_run
               [PmStart default_proxy_config 2, PmStdout ''Proxy listening'' default_proxy_config,
                PmSyncTick (ProbeResponse 200), PmStart default_proxy_config 3]
               (snd (pm_step (PmReadyTimeout 1) proxy_starting))))
   \<and> pm_status (snd (pm_run
               [PmStart default_proxy_config 2, PmStdout ''Proxy listening'' default_proxy_config,
                PmSyncTick (ProbeResponse 200), PmStart default_proxy_config 3]
               (snd (pm_step (PmReadyTimeout 1) proxy_starting)))) = Starting
   \<and> fst (sm_step (SmPingDone 1 False default_storage_config) storage_starting)
     = [SmStartRejected (Error ''Storage daemon API did not become ready'')]
   \<and> sm_process (snd (sm_step (SmPingDone 1 False default_storage_config) storage_starting))
     = Some 1
   \<and> list_all2 (\<lambda>e obs. is_SmStart e \<longrightarrow>
                     obs = [SmStartRejected (Error ''Storage daemon already running'')])
        [SmStart default_storage_config 2 True, SmPingDone 1 True default_storage_config,
         SmPollTick (Inr []), SmStart default_storage_config 3 True]
        (fst (sm_run
               [SmStart default_storage_config 2 True, SmPingDone 1 True default_storage_config,
                SmPollTick (Inr []), SmStart default_storage_config 3 True]
               (snd (sm_step (SmPingDone 1 False default_storage_config) storage_starting))))
   \<and> \<not> sm_isRunning (snd (sm_run
               [SmStart default_storage_config 2 True, SmPingDone 1 True default_storage_config,
                SmPollTick (Inr []), SmStart default_storage_config 3 True]
               (snd (sm_step (SmPingDone 1 False default_storage_config) storage_starting))))"
proof -
  let ?pevs = "[PmStart default_proxy_config 2, PmStdout ''Proxy listening'' default_proxy_config,
         PmSyncTick (ProbeResponse 200), PmStart default_proxy_config 3]"
  let ?sevs = "[SmStart default_storage_config 2 True, SmPingDone 1 True default_storage_config,
         SmPollTick (Inr []), SmStart default_storage_config 3 True]"
  have hp: "pm_process proxy_starting = Some 1 \<and> 1 \<in> set (pm_waits proxy_starting)
      \<and> PmStop \<notin> set ?pevs \<and> (\<forall>e\<in>set ?pevs. \<not> is_PmExit e)"
    by (simp add: proxy_starting_eq)
  have hp2: "pm_status proxy_starting = Starting \<and> pm_syncCheckInterval proxy_starting = None
      \<and> 1 \<notin> set (pm_waits (snd (pm_step (PmReadyTimeout 1) proxy_starting)))"
    by (simp add: proxy_starting_eq pm_ready_timeout_def)
  have hs: "sm_process storage_starting = Some 1 \<and> map_of (sm_waits storage_starting) 1 = Some 29
      \<and> maxAttempts \<le> Suc 29 \<and> SmStop \<notin> set ?sevs \<and> (\<forall>e\<in>set ?sevs. \<not> is_SmExit e)"
    by (simp add: storage_starting_eq maxAttempts_def)
  have hs2: "\<not> sm_isRunning storage_starting
      \<and> sm_waits (snd (sm_step (SmPingDone 1 False default_storage_config) storage_starting)) = []"
    by (simp add: storage_starting_eq sm_ping_done_def maxAttempts_def remove_wait_def)
  from start_rejected_until_stop_or_exit
         [where pm = proxy_starting and p = 1 and h = 1 and pevs = ?pevs
            and sm = storage_starting and q = 1 and k = 1 and i = 29 and sevs = ?sevs
            and cfg = default_storage_config]
       hp hp2 hs hs2
  show ?thesis by (simp add: case_prod_beta)
qed

text \<open>
  C9 as stated fails when the child exits: the exit listener clears the handle, and a
  later \<open>start()\<close> is accepted though \<open>stop()\<close> was never called. The history: start,
  readiness timeout, exit of the child with code 1, start.
\<close>

theorem start_accepted_after_exit_counterexample:
  "fst (pm_run [PmStart default_proxy_config 1, PmReadyTimeout 1, PmExit (Num (Fin 1)),
                PmStart default_proxy_config 2] new_ProxyManager)
     = [[PmStatus Starting,
         PmSpawned 1 \<lparr>arg_direct = True, arg_listen_port = Num (Fin 8080), arg_rotate = None\<rparr>],
        [PmStartRejected (Error ''Proxy failed to start within timeout'')],
        [PmStatus Stopped, PmExited (Num (Fin 1))],
        [PmStatus Starting,
         PmSpawned 2 \<lparr>arg_direct = True, arg_listen_port = Num (Fin 8080), arg_rotate = None\<rparr>]]"
  by (simp add: pm_start_def new_ProxyManager_def default_proxy_config_def pm_loadSettings_def
      pm_setStatus_def validatePort_def num_gt_def Let_def pm_ready_timeout_def pm_exit_def
      pm_spawn_args_def)

subsection \<open>Bag operations without a client\<close>

text \<open>
  C10. When the manager holds no HTTP client, \<open>listBags()\<close> returns the empty list
  without throwing, while \<open>addBag\<close>, \<open>removeBag\<close>, \<open>pauseBag\<close> and \<open>getBagDetails\<close> each
  throw \<open>Storage daemon not running\<close>, whatever the daemon would have answered.
\<close>

theorem bag_operations_without_client:
  assumes "sm_client m = None"
  shows "StorageManager_listBags m listed = Inr []
       \<and> StorageManager_addBag m bagId downloadPath added = Inl (Error ''Storage daemon not running'')
       \<and> StorageManager_removeBag m bagId withFiles removed
           = Inl (Error ''Storage daemon not running'')
       \<and> StorageManager_pauseBag m bagId stopped = Inl (Error ''Storage daemon not running'')
       \<and> StorageManager_getBagDetails m bagId details
           = Inl (Error ''Storage daemon not running'')"
  using assms
  by (simp add: StorageManager_listBags_def StorageManager_addBag_def
      StorageManager_removeBag_def StorageManager_pauseBag_def StorageManager_getBagDetails_def)

theorem bag_operations_without_client_witness:
  "sm_client (new_StorageManager ''/data/storage'') = None
   \<and> StorageManager_listBags (new_StorageManager ''/data/storage'') (Inl (TypeError ''fetch failed''))
       = Inr []
   \<and> StorageManager_addBag (new_StorageManager ''/data/storage'') ''ab'' None (Inr (Obj []))
       = Inl (Error ''Storage daemon not running'')
   \<and> StorageManager_removeBag (new_StorageManager ''/data/storage'') ''ab'' False (Inr True)
       = Inl (Error ''Storage daemon not running'')
   \<and> StorageManager_pauseBag (new_StorageManager ''/data/storage'') ''ab'' (Inr True)
       = Inl (Error ''Storage daemon not running'')
   \<and> StorageManager_getBagDetails (new_StorageManager ''/data/storage'') ''ab'' (Inr (Obj []))
       = Inl (Error ''Storage daemon not running'')"
proof -
  have c: "sm_client (new_StorageManager ''/data/storage'') = None"
    by (simp add: new_StorageManager_def)
  from bag_operations_without_client [OF c] c show ?thesis by simp
qed

subsection \<open>Ping\<close>

text \<open>
  C8. \<open>ping()\<close> never throws: it returns false whenever the list call throws, as it
  does when the daemon cannot be reached or answers with a status that is not a success,
  and true when the list call succeeds.
\<close>

theorem ping_never_throws:
  "ping outcome = Inr (case client_listBags outcome of Inl e \<Rightarrow> False | Inr bags \<Rightarrow> True)
   \<and> ping (FetchRejected msg) = Inr False
   \<and> (\<not> resp_ok r \<longrightarrow> ping (Responded r) = Inr False)"
  by (simp add: ping_def client_listBags_def client_fetch_def split: sum.splits)

theorem ping_never_throws_witness:
  "ping (Responded \<lparr>resp_ok = False, resp_status = 502, resp_text = ''Bad Gateway'',
                    resp_json = Unparseable\<rparr>) = Inr False
   \<and> ping (FetchRejected ''fetch failed'') = Inr False
   \<and> ping (Responded \<lparr>resp_ok = True, resp_status = 200, resp_text = ''{\"bags\":[]}'',
                      resp_json = Document (Obj [(''bags'', Arr [])])\<rparr>) = Inr True
   \<and> ping (Responded \<lparr>resp_ok = True, resp_status = 200, resp_text = ''null'',
                      resp_json = Document Null\<rparr>) = Inr False"
proof -
  have "\<not> resp_ok \<lparr>resp_ok = False, resp_status = 502, resp_text = ''Bad Gateway'',
                    resp_json = Unparseable\<rparr>"
    by simp
  with ping_never_throws
         [of "Responded \<lparr>resp_ok = True, resp_status = 200, resp_text = ''{\"bags\":[]}'',
                      resp_json = Document (Obj [(''bags'', Arr [])])\<rparr>"
             "''fetch failed''"
             "\<lparr>resp_ok = False, resp_status = 502, resp_text = ''Bad Gateway'',
                    resp_json = Unparseable\<rparr>"]
       ping_never_throws
         [of "Responded \<lparr>resp_ok = True, resp_status = 200, resp_text = ''null'',
                      resp_json = Document Null\<rparr>"]
  show ?thesis
    by (simp add: client_listBags_def client_fetch_def get_prop_def)
qed

end
